theory Spec2Isabelle
  imports Complex_Main "HOL-Library.Sublist"
begin

section \<open>JavaScript strings\<close>

text \<open>
  A JavaScript string is a sequence of UTF-16 code units. The embedding uses \<open>string\<close>, so a
  \<open>char\<close> stands for a code unit in the range U+0000 to U+00FF, and \<open>length\<close> is the
  \<open>.length\<close> of the string. The white space of \<open>\s\<close> and of \<open>trim()\<close> is the same class
  (WhiteSpace and LineTerminator); in this range it is TAB, LF, VT, FF, CR, SPACE and NBSP.
\<close>

definition is_ws :: "char \<Rightarrow> bool" where
  "is_ws c = (c \<in> set [CHR 0x09, CHR 0x0A, CHR 0x0B, CHR 0x0C, CHR 0x0D, CHR 0x20, CHR 0xA0])"

definition is_digit :: "char \<Rightarrow> bool" where
  "is_digit c = (c \<in> set ''0123456789'')"

definition upper_chars :: string where
  "upper_chars = ''ABCDEFGHIJKLMNOPQRSTUVWXYZ'' @
     [CHR 0xC0, CHR 0xC1, CHR 0xC2, CHR 0xC3, CHR 0xC4, CHR 0xC5, CHR 0xC6, CHR 0xC7,
      CHR 0xC8, CHR 0xC9, CHR 0xCA, CHR 0xCB, CHR 0xCC, CHR 0xCD, CHR 0xCE, CHR 0xCF,
      CHR 0xD0, CHR 0xD1, CHR 0xD2, CHR 0xD3, CHR 0xD4, CHR 0xD5, CHR 0xD6,
      CHR 0xD8, CHR 0xD9, CHR 0xDA, CHR 0xDB, CHR 0xDC, CHR 0xDD, CHR 0xDE]"

definition lower_chars :: string where
  "lower_chars = ''abcdefghijklmnopqrstuvwxyz'' @
     [CHR 0xE0, CHR 0xE1, CHR 0xE2, CHR 0xE3, CHR 0xE4, CHR 0xE5, CHR 0xE6, CHR 0xE7,
      CHR 0xE8, CHR 0xE9, CHR 0xEA, CHR 0xEB, CHR 0xEC, CHR 0xED, CHR 0xEE, CHR 0xEF,
      CHR 0xF0, CHR 0xF1, CHR 0xF2, CHR 0xF3, CHR 0xF4, CHR 0xF5, CHR 0xF6,
      CHR 0xF8, CHR 0xF9, CHR 0xFA, CHR 0xFB, CHR 0xFC, CHR 0xFD, CHR 0xFE]"

definition toLowerChar :: "char \<Rightarrow> char" where
  "toLowerChar c = (case map_of (zip upper_chars lower_chars) c of Some l \<Rightarrow> l | None \<Rightarrow> c)"

definition toLowerCase :: "string \<Rightarrow> string" where
  "toLowerCase s = map toLowerChar s"

text \<open>\<open>String.prototype.trim\<close>.\<close>

definition trim :: "string \<Rightarrow> string" where
  "trim s = rev (dropWhile is_ws (rev (dropWhile is_ws s)))"

text \<open>\<open>s.includes(t)\<close>, \<open>s.startsWith(t)\<close> and \<open>s.endsWith(t)\<close>.\<close>

fun includes_str :: "string \<Rightarrow> string \<Rightarrow> bool" where
  "includes_str [] t = (t = [])"
| "includes_str (c # cs) t = (prefix t (c # cs) \<or> includes_str cs t)"

definition endsWith :: "string \<Rightarrow> string \<Rightarrow> bool" where
  "endsWith s t = suffix t s"

text \<open>
  \<open>xs.slice(0, e)\<close> on a string or an array, for an integral \<open>e\<close>: a negative end counts
  from the end of the sequence.
\<close>

definition slice0 :: "int \<Rightarrow> 'a list \<Rightarrow> 'a list" where
  "slice0 e xs = (if e < 0 then take (nat (int (length xs) + e)) xs else take (nat e) xs)"

text \<open>\<open>xs.join(sep)\<close> on an array of strings.\<close>

fun join :: "string \<Rightarrow> string list \<Rightarrow> string" where
  "join sep [] = []"
| "join sep [x] = x"
| "join sep (x # y # ys) = x @ sep @ join sep (y # ys)"

text \<open>
  \<open>s.replace(/\s+/g, "")\<close>: every maximal run of white space is one match and is replaced by
  the empty string.
\<close>

function replace_ws_runs :: "string \<Rightarrow> string" where
  "replace_ws_runs [] = []"
| "replace_ws_runs (c # cs) =
     (if is_ws c then replace_ws_runs (dropWhile is_ws cs) else c # replace_ws_runs cs)"
  by pat_completeness auto
termination
  by (relation "measure length") (auto simp: length_dropWhile_le le_imp_less_Suc)

section \<open>Text Signal Estimator\<close>

text \<open>
  \<^verbatim>\<open>function getSignalLength(value) { return (value || "").replace(/\s+/g, "").length; }\<close>
  The argument is \<open>None\<close> for \<open>undefined\<close> or \<open>null\<close>.
\<close>

definition or_empty :: "string option \<Rightarrow> string" where
  "or_empty v = (case v of None \<Rightarrow> [] | Some s \<Rightarrow> s)"

definition getSignalLength :: "string option \<Rightarrow> nat" where
  "getSignalLength v = length (replace_ws_runs (or_empty v))"

text \<open>
  \<open>isWeakText\<close> of the extraction service computes the same signal and compares it with the
  extraction-time threshold \<open>minTextSignal\<close>.
\<close>

definition isWeakText :: "int \<Rightarrow> string option \<Rightarrow> bool" where
  "isWeakText minTextSignal v = (int (length (replace_ws_runs (or_empty v))) < minTextSignal)"

section \<open>Text normalisation\<close>

text \<open>\<open>s.replace(/\r\n/g, "\n")\<close>.\<close>

fun replace_crlf :: "string \<Rightarrow> string" where
  "replace_crlf [] = []"
| "replace_crlf [c] = [c]"
| "replace_crlf (c # d # cs) =
     (if c = CHR 0x0D \<and> d = CHR 0x0A then CHR 0x0A # replace_crlf cs
      else c # replace_crlf (d # cs))"

text \<open>\<open>s.replace(/[ \t]+/g, " ")\<close>: a maximal run of spaces and tabs becomes one space.\<close>

definition is_blank :: "char \<Rightarrow> bool" where
  "is_blank c = (c = CHR 0x20 \<or> c = CHR 0x09)"

function collapse_blanks :: "string \<Rightarrow> string" where
  "collapse_blanks [] = []"
| "collapse_blanks (c # cs) =
     (if is_blank c then CHR 0x20 # collapse_blanks (dropWhile is_blank cs)
      else c # collapse_blanks cs)"
  by pat_completeness auto
termination
  by (relation "measure length") (auto simp: length_dropWhile_le le_imp_less_Suc)

text \<open>
  \<open>s.replace(/\n{3,}/g, "\n\n")\<close>: a maximal run of three or more line feeds becomes two;
  a shorter run is no match and stays.
\<close>

function collapse_newlines :: "string \<Rightarrow> string" where
  "collapse_newlines [] = []"
| "collapse_newlines (c # cs) =
     (if c = CHR 0x0A then
        (if 2 \<le> length (takeWhile (\<lambda>d. d = CHR 0x0A) cs)
         then [CHR 0x0A, CHR 0x0A]
         else CHR 0x0A # takeWhile (\<lambda>d. d = CHR 0x0A) cs)
        @ collapse_newlines (dropWhile (\<lambda>d. d = CHR 0x0A) cs)
      else c # collapse_newlines cs)"
  by pat_completeness auto
termination
  by (relation "measure length") (auto simp: length_dropWhile_le le_imp_less_Suc)

text \<open>
  \<^verbatim>\<open>function normalizeExtractedText(value) {
  return value.replace(/\r\n/g, "\n").replace(/[ \t]+/g, " ").replace(/\n{3,}/g, "\n\n").trim(); }\<close>
\<close>

definition normalizeExtractedText :: "string \<Rightarrow> string" where
  "normalizeExtractedText v = trim (collapse_newlines (collapse_blanks (replace_crlf v)))"

text \<open>
  \<open>s.split(/\s+/)\<close>: the pieces between the maximal runs of white space. A run at the start
  or at the end of the string leaves an empty piece there, and the empty string gives one empty
  piece. The first argument holds the characters of the piece being read.
\<close>

function split_ws_from :: "string \<Rightarrow> string \<Rightarrow> string list" where
  "split_ws_from piece [] = [piece]"
| "split_ws_from piece (c # cs) =
     (if is_ws c then piece # split_ws_from [] (dropWhile is_ws cs)
      else split_ws_from (piece @ [c]) cs)"
  by pat_completeness auto
termination
  by (relation "measure (\<lambda>(piece, s). length s)")
     (auto simp: length_dropWhile_le le_imp_less_Suc)

definition split_ws :: "string \<Rightarrow> string list" where
  "split_ws s = split_ws_from [] s"

section \<open>Documents and the Document Store\<close>

text \<open>
  A buffer is a list of byte values. The base64 text of a buffer is not inspected by the
  program beyond its emptiness, so \<open>buffer.toString("base64")\<close> and
  \<open>Buffer.from(data, "base64")\<close> are functions of the runtime record below.
\<close>

type_synonym buffer = "nat list"

record cloudinary_ref =
  cl_url :: "string option"
  cl_publicId :: "string option"
  cl_resourceType :: "string option"

record source_payload =
  src_mimeType :: string
  src_data :: string

text \<open>
  The fields of a stored document, named as in the upload handler with the prefix \<open>doc_\<close>.
  \<open>originalname\<close> and \<open>mimetype\<close> of an uploaded file are strings, so the guards
  \<open>doc.name || ""\<close>, \<open>doc.mimetype || ""\<close> and \<open>doc.text || ""\<close> return the field.
\<close>

record document =
  doc_id :: string
  doc_name :: string
  doc_mimetype :: string
  doc_size :: nat
  doc_uploadedAt :: string
  doc_text :: string
  doc_textChars :: nat
  doc_textWords :: nat
  doc_cloudinary :: cloudinary_ref
  doc_sourceForAnalysis :: "source_payload option"

record masked_document =
  m_id :: string
  m_name :: string
  m_mimetype :: string
  m_size :: nat
  m_uploadedAt :: string
  m_cloudinary :: cloudinary_ref
  m_textChars :: nat
  m_textWords :: nat
  m_textPreview :: string

definition maskDocument :: "document \<Rightarrow> masked_document" where
  "maskDocument doc =
     \<lparr> m_id = doc_id doc, m_name = doc_name doc, m_mimetype = doc_mimetype doc,
       m_size = doc_size doc, m_uploadedAt = doc_uploadedAt doc,
       m_cloudinary = doc_cloudinary doc, m_textChars = doc_textChars doc,
       m_textWords = doc_textWords doc, m_textPreview = slice0 220 (doc_text doc) \<rparr>"

text \<open>A thrown JavaScript error, by its class and its message.\<close>

datatype js_error = Error string | SyntaxError string

fun message :: "js_error \<Rightarrow> string" where
  "message (Error m) = m"
| "message (SyntaxError m) = m"

text \<open>
  The configuration read from the environment at start-up. The numeric settings are
  \<open>Number(process.env.X || default)\<close>; the embedding takes them to be integers.
\<close>

record config =
  maxInputChars :: int
  minAnalysisSignal :: int
  maxMultimodalDocs :: int
  maxMultimodalBytes :: int
  enableOcrRecoveryOnAnalyze :: bool
  apiKey :: "string option"
  retryUnderfilled :: bool

text \<open>
  The configuration of a process started with an API key and no other setting: every numeric
  setting and every flag has its default.
\<close>

definition default_config :: config where
  "default_config =
     \<lparr> maxInputChars = 160000, minAnalysisSignal = 40, maxMultimodalDocs = 3,
       maxMultimodalBytes = 15 * 1024 * 1024, enableOcrRecoveryOnAnalyze = False,
       apiKey = Some ''key'', retryUnderfilled = False \<rparr>"

section \<open>JSON values, results and model requests\<close>

text \<open>
  A decoded JSON value. An object is the list of its own properties; \<open>JSON.parse\<close> has
  already resolved repeated keys, and a property is read with \<open>map_of\<close>. Numbers are never
  inspected by the program beyond their type.
\<close>

datatype json = JNull | JBool bool | JNum int | JStr string | JArr "json list"
  | JObj "(string \<times> json) list"

text \<open>
  \<open>v?.key\<close>: the property of an object, \<open>None\<close> (for \<open>undefined\<close>) on every other value.
  None of the keys the program reads is a property of a string, an array or a prototype.
\<close>

fun get_prop :: "json option \<Rightarrow> string \<Rightarrow> json option" where
  "get_prop (Some (JObj kvs)) k = map_of kvs k"
| "get_prop _ k = None"

record guidance =
  g_revenue :: "string option"
  g_margin :: "string option"
  g_capex :: "string option"
  g_tax_rate :: "string option"

record evidence =
  ev_quote :: string
  ev_section :: string

record result =
  r_tone :: string
  r_tone_summary :: "string option"
  r_confidence :: string
  r_key_positives :: "string list"
  r_key_concerns :: "string list"
  r_forward_guidance :: guidance
  r_capacity_utilization_trends :: "string option"
  r_growth_initiatives :: "string list"
  r_evidence_quotes :: "evidence list"
  r_missing_sections :: "string list"

text \<open>
  The prompt is the fixed template of \<open>buildPrompt\<close> instantiated with the transcript text
  and the two flags; \<open>retry\<close> says that the stricter instruction of the retry is appended.
  The text of the template is not modelled.
\<close>

record prompt =
  p_transcriptText :: string
  p_lowSignal :: bool
  p_hasAttachedDocs :: bool
  p_retry :: bool

text \<open>A DocumentPart: \<open>{ text }\<close> or \<open>{ inlineData: { mimeType, data } }\<close>.\<close>

datatype part = TextPart string | InlineData string string

text \<open>The parts of one \<open>generateContent\<close> call: \<open>[{ text: prompt }, ...documentParts]\<close>.\<close>

record model_request =
  req_prompt :: prompt
  req_documentParts :: "part list"

text \<open>
  A JavaScript number that is not \<open>NaN\<close>: a double, by the rational it denotes, or
  \<open>Infinity\<close>.
\<close>

datatype js_number = Finite rat | Infinity

text \<open>
  The runtime and the external services, as the program sees them. A service called in a loop
  takes the position of the call, so that two calls with the same argument may differ.
  \<^item> \<open>toBase64\<close>, \<open>fromBase64\<close>: the base64 codec of \<open>Buffer\<close>;
  \<^item> \<open>JSON_parse\<close>: \<open>JSON.parse\<close>, \<open>Inl\<close> the message of its \<open>SyntaxError\<close>;
  \<^item> \<open>Number\<close>: \<open>Number(text)\<close> on a decimal numeral \<open>digits\<close> or \<open>digits.digits\<close>, the
    double nearest to the numeral, or \<open>Infinity\<close> for a numeral beyond the doubles;
  \<^item> \<open>recovery_fetch\<close>, \<open>parts_fetch\<close>: \<open>fetch(url)\<close> with the body read, in
    \<open>downloadBuffer\<close>, \<open>Inl\<close> a network failure or a response that is not \<open>ok\<close>;
  \<^item> \<open>ocr_generate\<close>: the model call of \<open>extractTextFromPdfBufferWithGemini\<close> under its
    timeout, giving \<open>response.response.text()\<close>;
  \<^item> \<open>generateContent\<close>: the model call of \<open>generateStructuredJson\<close>, giving
    \<open>response.response.text()\<close>;
  \<^item> \<open>newRunId\<close>, \<open>now\<close>: \<open>randomUUID()\<close> and \<open>new Date().toISOString()\<close>.
\<close>

record env =
  toBase64 :: "buffer \<Rightarrow> string"
  fromBase64 :: "string \<Rightarrow> buffer"
  JSON_parse :: "string \<Rightarrow> string + json"
  Number :: "string \<Rightarrow> js_number"
  recovery_fetch :: "nat \<Rightarrow> string \<Rightarrow> js_error + buffer"
  ocr_generate :: "nat \<Rightarrow> buffer \<Rightarrow> js_error + string option"
  parts_fetch :: "nat \<Rightarrow> string \<Rightarrow> js_error + buffer"
  generateContent :: "nat \<Rightarrow> model_request \<Rightarrow> js_error + string option"
  newRunId :: string
  now :: string

record analysis_run =
  run_runId :: string
  run_createdAt :: string
  run_documentIds :: "string list"
  run_documentNames :: "string list"
  run_result :: result

text \<open>The two in-memory stores, \<open>documents\<close> and \<open>analysisRuns\<close>.\<close>

record state =
  documents :: "string \<rightharpoonup> document"
  analysisRuns :: "string \<rightharpoonup> analysis_run"

record detail =
  det_id :: string
  det_name :: string
  det_textChars :: nat
  det_textPreview :: string

text \<open>An HTTP response: the status and the JSON body.\<close>

datatype body =
    ErrorBody string
  | DocumentsBody "masked_document list"
  | InsufficientBody string "detail list"
  | RateLimitedBody string "rat option"
  | AnalysisBody string result "masked_document list"

datatype response = Response (status: nat) (body: body)

section \<open>Upload\<close>

record upload_file =
  file_originalname :: string
  file_mimetype :: string
  file_size :: nat
  file_buffer :: buffer

text \<open>
  What the external calls of one iteration of the upload loop give: the outcome of
  \<open>extractTextFromBuffer(file)\<close> (any text, \<open>undefined\<close> or an exception), the outcome of
  \<open>uploadBufferToCloudinary\<close>, the fresh identifier and the time.
\<close>

record upload_io =
  io_extracted :: "js_error + string option"
  io_cloudinary :: "js_error + cloudinary_ref"
  io_uuid :: string
  io_now :: string

definition make_document ::
  "config \<Rightarrow> env \<Rightarrow> upload_file \<Rightarrow> string \<Rightarrow> cloudinary_ref \<Rightarrow> string \<Rightarrow> string \<Rightarrow> document"
where
  "make_document cfg rt file normalizedText cl uuid time =
     \<lparr> doc_id = uuid,
       doc_name = file_originalname file,
       doc_mimetype = file_mimetype file,
       doc_size = file_size file,
       doc_uploadedAt = time,
       doc_text = normalizedText,
       doc_textChars = length normalizedText,
       doc_textWords = (if normalizedText \<noteq> [] then length (split_ws normalizedText) else 0),
       doc_cloudinary = cl,
       doc_sourceForAnalysis =
         (if includes_str (file_mimetype file) ''pdf''
             \<and> int (getSignalLength (Some normalizedText)) < minAnalysisSignal cfg
          then Some \<lparr> src_mimeType =
                        (if file_mimetype file \<noteq> [] then file_mimetype file
                         else ''application/pdf''),
                      src_data = toBase64 rt (file_buffer file) \<rparr>
          else None) \<rparr>"

definition upload_one ::
  "config \<Rightarrow> env \<Rightarrow> state \<Rightarrow> upload_file \<times> upload_io \<Rightarrow> js_error + (state \<times> masked_document)"
where
  "upload_one cfg rt st fio =
     (case io_extracted (snd fio) of
        Inl e \<Rightarrow> Inl e
      | Inr text \<Rightarrow>
          (case io_cloudinary (snd fio) of
             Inl e \<Rightarrow> Inl e
           | Inr cl \<Rightarrow>
               (let doc = make_document cfg rt (fst fio) (normalizeExtractedText (or_empty text))
                            cl (io_uuid (snd fio)) (io_now (snd fio))
                in Inr (st\<lparr>documents := (documents st)(io_uuid (snd fio) \<mapsto> doc)\<rparr>,
                        maskDocument doc))))"

fun upload_files ::
  "config \<Rightarrow> env \<Rightarrow> state \<Rightarrow> (upload_file \<times> upload_io) list \<Rightarrow> masked_document list
     \<Rightarrow> state \<times> (js_error + masked_document list)"
where
  "upload_files cfg rt st [] uploaded = (st, Inr uploaded)"
| "upload_files cfg rt st (fio # fios) uploaded =
     (case upload_one cfg rt st fio of
        Inl e \<Rightarrow> (st, Inl e)
      | Inr (st', m) \<Rightarrow> upload_files cfg rt st' fios (uploaded @ [m]))"

text \<open>
  \<open>POST /api/upload\<close>. An exception leaves the loop for the \<open>catch\<close> block; the documents
  stored before it stay in the store.
\<close>

definition upload :: "config \<Rightarrow> env \<Rightarrow> state \<Rightarrow> (upload_file \<times> upload_io) list \<Rightarrow> state \<times> response"
where
  "upload cfg rt st files =
     (if files = [] then (st, Response 400 (ErrorBody ''No files provided''))
      else (case upload_files cfg rt st files [] of
              (st', Inl e) \<Rightarrow>
                (st', Response 500 (ErrorBody (if message e \<noteq> [] then message e
                                                else ''Upload failed'')))
            | (st', Inr uploaded) \<Rightarrow> (st', Response 201 (DocumentsBody uploaded))))"

section \<open>Retrieving a document's bytes\<close>

text \<open>
  \<open>downloadBuffer(url)\<close>: \<open>null\<close> without a URL, an exception when the download fails.
\<close>

definition downloadBuffer ::
  "(string \<Rightarrow> js_error + buffer) \<Rightarrow> string option \<Rightarrow> js_error + buffer option"
where
  "downloadBuffer fetch url =
     (case url of
        None \<Rightarrow> Inr None
      | Some u \<Rightarrow>
          (if u = [] then Inr None
           else (case fetch u of Inl e \<Rightarrow> Inl e | Inr b \<Rightarrow> Inr (Some b))))"

text \<open>
  \<open>getDocumentBuffer(doc)\<close>: the payload retained at upload when there is one (a base64 text
  that is not empty), the download from remote storage otherwise.
\<close>

definition getDocumentBuffer ::
  "env \<Rightarrow> (string \<Rightarrow> js_error + buffer) \<Rightarrow> document \<Rightarrow> js_error + buffer option"
where
  "getDocumentBuffer rt fetch doc =
     (case doc_sourceForAnalysis doc of
        Some src \<Rightarrow>
          (if src_data src \<noteq> [] then Inr (Some (fromBase64 rt (src_data src)))
           else downloadBuffer fetch (cl_url (doc_cloudinary doc)))
      | None \<Rightarrow> downloadBuffer fetch (cl_url (doc_cloudinary doc)))"

definition isPdfDoc :: "document \<Rightarrow> bool" where
  "isPdfDoc doc =
     (endsWith (toLowerCase (doc_name doc)) ''.pdf'' \<or> includes_str (doc_mimetype doc) ''pdf'')"

definition isWeakPdfDoc :: "config \<Rightarrow> document \<Rightarrow> bool" where
  "isWeakPdfDoc cfg doc =
     ((endsWith (toLowerCase (doc_name doc)) ''.pdf'' \<or> includes_str (doc_mimetype doc) ''pdf'')
      \<and> int (getSignalLength (Some (doc_text doc))) < minAnalysisSignal cfg)"

section \<open>OCR recovery\<close>

text \<open>
  \<open>extractTextFromPdfBufferWithGemini(buffer)\<close>: the empty string without an API key, on an
  empty buffer and on every failure of the model call. The second argument is the model call.
\<close>

definition extractTextFromPdfBufferWithGemini ::
  "config \<Rightarrow> (buffer \<Rightarrow> js_error + string option) \<Rightarrow> buffer \<Rightarrow> string"
where
  "extractTextFromPdfBufferWithGemini cfg generate buffer =
     (if apiKey cfg = None \<or> apiKey cfg = Some [] \<or> buffer = [] then []
      else (case generate buffer of Inl e \<Rightarrow> [] | Inr t \<Rightarrow> or_empty t))"

text \<open>
  One iteration of the loop of \<open>recoverWeakPdfDocuments\<close>, on the document stored under
  \<open>k\<close>. The loop variable is a reference to the stored object, so the iteration reads and
  writes the store. \<open>i\<close> is the position of the iteration.
\<close>

definition recover_one :: "config \<Rightarrow> env \<Rightarrow> state \<Rightarrow> nat \<Rightarrow> string \<Rightarrow> state" where
  "recover_one cfg rt st i k =
     (case documents st k of
        None \<Rightarrow> st
      | Some doc \<Rightarrow>
          (case getDocumentBuffer rt (recovery_fetch rt i) doc of
             Inl e \<Rightarrow> st
           | Inr None \<Rightarrow> st
           | Inr (Some fileBuffer) \<Rightarrow>
               (if fileBuffer = [] then st
                else (let ocrText = extractTextFromPdfBufferWithGemini cfg (ocr_generate rt i) fileBuffer;
                          normalizedText = normalizeExtractedText ocrText
                      in if normalizedText = [] then st
                         else st\<lparr>documents := (documents st)(k \<mapsto>
                                doc\<lparr>doc_text := normalizedText,
                                    doc_textChars := length normalizedText,
                                    doc_textWords :=
                                      length (filter (\<lambda>w. w \<noteq> []) (split_ws normalizedText))\<rparr>)\<rparr>))))"

fun recover_loop :: "config \<Rightarrow> env \<Rightarrow> state \<Rightarrow> nat \<Rightarrow> string list \<Rightarrow> state" where
  "recover_loop cfg rt st i [] = st"
| "recover_loop cfg rt st i (k # ks) = recover_loop cfg rt (recover_one cfg rt st i k) (Suc i) ks"

text \<open>
  \<open>recoverWeakPdfDocuments(selectedDocs)\<close>. The selection is a list of references to stored
  documents, given by their keys; the weak ones are chosen before the loop starts.
\<close>

definition is_weak_ref :: "config \<Rightarrow> state \<Rightarrow> string \<Rightarrow> bool" where
  "is_weak_ref cfg st k = (case documents st k of None \<Rightarrow> False | Some doc \<Rightarrow> isWeakPdfDoc cfg doc)"

definition recoverWeakPdfDocuments :: "config \<Rightarrow> env \<Rightarrow> state \<Rightarrow> string list \<Rightarrow> state" where
  "recoverWeakPdfDocuments cfg rt st selected =
     recover_loop cfg rt st 0 (filter (is_weak_ref cfg st) selected)"

section \<open>Multimodal parts\<close>

fun build_parts_loop :: "config \<Rightarrow> env \<Rightarrow> nat \<Rightarrow> document list \<Rightarrow> part list \<Rightarrow> part list" where
  "build_parts_loop cfg rt i [] parts = parts"
| "build_parts_loop cfg rt i (doc # docs) parts =
     build_parts_loop cfg rt (Suc i) docs
       (case getDocumentBuffer rt (parts_fetch rt i) doc of
          Inl e \<Rightarrow> parts
        | Inr None \<Rightarrow> parts
        | Inr (Some fileBuffer) \<Rightarrow>
            (if fileBuffer = [] \<or> int (length fileBuffer) > maxMultimodalBytes cfg then parts
             else parts @ [TextPart (''Source Document: '' @ doc_name doc),
                           InlineData ''application/pdf'' (toBase64 rt fileBuffer)]))"

definition pdfDocs :: "config \<Rightarrow> document list \<Rightarrow> document list" where
  "pdfDocs cfg selectedDocs = slice0 (maxMultimodalDocs cfg) (filter isPdfDoc selectedDocs)"

definition buildDocumentParts :: "config \<Rightarrow> env \<Rightarrow> document list \<Rightarrow> part list" where
  "buildDocumentParts cfg rt selectedDocs = build_parts_loop cfg rt 0 (pdfDocs cfg selectedDocs) []"

section \<open>JSON Recovery Parser\<close>

text \<open>
  \<open>s.replace(/^```(?:json)?\s*/i, "")\<close>: a fence at the start of the string, the tag
  \<open>json\<close> in any case after it, and the white space that follows.
\<close>

definition fence :: string where
  "fence = ''```''"

definition strip_leading_fence :: "string \<Rightarrow> string" where
  "strip_leading_fence s =
     (if prefix fence s then
        (let r = drop 3 s
         in dropWhile is_ws (if toLowerCase (take 4 r) = ''json'' then drop 4 r else r))
      else s)"

text \<open>\<open>s.replace(/\s*```$/, "")\<close>: a fence at the end of the string and the white space before it.\<close>

definition strip_trailing_fence :: "string \<Rightarrow> string" where
  "strip_trailing_fence s =
     (if suffix fence s then rev (dropWhile is_ws (drop 3 (rev s))) else s)"

text \<open>
  \<open>s.match(/\{[\s\S]*\}/)\<close>: from the first opening brace to the last closing brace after it;
  \<open>None\<close> when there is no such pair.
\<close>

definition brace_match :: "string \<Rightarrow> string option" where
  "brace_match s =
     (case dropWhile (\<lambda>c. c \<noteq> CHR ''{'') s of
        [] \<Rightarrow> None
      | b # t \<Rightarrow>
          (case dropWhile (\<lambda>c. c \<noteq> CHR ''}'') (rev t) of
             [] \<Rightarrow> None
           | e # r \<Rightarrow> Some (b # rev (e # r))))"

definition parseJsonSafely :: "env \<Rightarrow> string option \<Rightarrow> js_error + json" where
  "parseJsonSafely rt raw =
     (let trimmed = trim (or_empty raw)
      in if trimmed = [] then Inl (Error ''Model returned empty output'')
         else (let withoutFences = strip_trailing_fence (strip_leading_fence trimmed)
               in case JSON_parse rt withoutFences of
                    Inr v \<Rightarrow> Inr v
                  | Inl m \<Rightarrow>
                      (case brace_match withoutFences of
                         None \<Rightarrow> Inl (Error ''LLM output was not valid JSON'')
                       | Some braces \<Rightarrow>
                           (case JSON_parse rt braces of
                              Inr v \<Rightarrow> Inr v
                            | Inl m' \<Rightarrow> Inl (SyntaxError m')))))"

section \<open>Result Normalizer\<close>

definition normalizeNullableString :: "json option \<Rightarrow> string option" where
  "normalizeNullableString v =
     (case v of
        Some (JStr s) \<Rightarrow>
          (let cleaned = trim s
           in if cleaned = [] \<or> toLowerCase cleaned = ''null''
                 \<or> toLowerCase cleaned = ''not mentioned''
              then None else Some cleaned)
      | _ \<Rightarrow> None)"

text \<open>\<open>Array.isArray(value) ? value : []\<close>.\<close>

definition array_or_empty :: "json option \<Rightarrow> json list" where
  "array_or_empty v = (case v of Some (JArr xs) \<Rightarrow> xs | _ \<Rightarrow> [])"

text \<open>\<open>typeof v === "string" ? v.trim() : ""\<close>.\<close>

definition trimmed_string :: "json option \<Rightarrow> string" where
  "trimmed_string v = (case v of Some (JStr s) \<Rightarrow> trim s | _ \<Rightarrow> [])"

definition normalizeStringArray :: "json option \<Rightarrow> int \<Rightarrow> string list" where
  "normalizeStringArray v mx =
     slice0 mx (filter (\<lambda>s. s \<noteq> []) (map (\<lambda>item. trimmed_string (Some item)) (array_or_empty v)))"

definition sentinel :: evidence where
  "sentinel = \<lparr> ev_quote = ''No direct quote extracted'', ev_section = ''N/A'' \<rparr>"

definition clean_evidence :: "json \<Rightarrow> evidence" where
  "clean_evidence item =
     \<lparr> ev_quote = trimmed_string (get_prop (Some item) ''quote''),
       ev_section = trimmed_string (get_prop (Some item) ''section'') \<rparr>"

definition normalizeEvidence :: "json option \<Rightarrow> evidence list" where
  "normalizeEvidence v =
     (let cleaned = slice0 8 (filter (\<lambda>item. 10 < length (ev_quote item))
                                (map clean_evidence (array_or_empty v)))
      in if cleaned \<noteq> [] then cleaned else [sentinel])"

definition toneAllowed :: "string list" where
  "toneAllowed = [''optimistic'', ''cautious'', ''defensive'', ''neutral'', ''pessimistic'']"

definition confidenceAllowed :: "string list" where
  "confidenceAllowed = [''high'', ''medium'', ''low'']"

text \<open>\<open>allowed.includes(v) ? v : fallback\<close>, for an array of strings.\<close>

definition allowed_or :: "string list \<Rightarrow> string \<Rightarrow> json option \<Rightarrow> string" where
  "allowed_or allowed fallback v =
     (case v of Some (JStr s) \<Rightarrow> (if s \<in> set allowed then s else fallback) | _ \<Rightarrow> fallback)"

definition normalizeResult :: "json \<Rightarrow> result" where
  "normalizeResult input =
     \<lparr> r_tone = allowed_or toneAllowed ''neutral'' (get_prop (Some input) ''tone''),
       r_tone_summary = normalizeNullableString (get_prop (Some input) ''tone_summary''),
       r_confidence = allowed_or confidenceAllowed ''low'' (get_prop (Some input) ''confidence''),
       r_key_positives = normalizeStringArray (get_prop (Some input) ''key_positives'') 6,
       r_key_concerns = normalizeStringArray (get_prop (Some input) ''key_concerns'') 6,
       r_forward_guidance =
         \<lparr> g_revenue = normalizeNullableString
                         (get_prop (get_prop (Some input) ''forward_guidance'') ''revenue''),
           g_margin = normalizeNullableString
                        (get_prop (get_prop (Some input) ''forward_guidance'') ''margin''),
           g_capex = normalizeNullableString
                       (get_prop (get_prop (Some input) ''forward_guidance'') ''capex''),
           g_tax_rate = normalizeNullableString
                          (get_prop (get_prop (Some input) ''forward_guidance'') ''tax_rate'') \<rparr>,
       r_capacity_utilization_trends =
         normalizeNullableString (get_prop (Some input) ''capacity_utilization_trends''),
       r_growth_initiatives = normalizeStringArray (get_prop (Some input) ''growth_initiatives'') 6,
       r_evidence_quotes = normalizeEvidence (get_prop (Some input) ''evidence_quotes''),
       r_missing_sections = normalizeStringArray (get_prop (Some input) ''missing_sections'') 12 \<rparr>"

text \<open>
  A Result is a JavaScript object, so it is itself a JSON value: the object that
  \<open>normalizeResult\<close> builds, with \<open>null\<close> for an absent string.
\<close>

definition json_of_nullable :: "string option \<Rightarrow> json" where
  "json_of_nullable v = (case v of None \<Rightarrow> JNull | Some s \<Rightarrow> JStr s)"

definition json_of_evidence :: "evidence \<Rightarrow> json" where
  "json_of_evidence e = JObj [(''quote'', JStr (ev_quote e)), (''section'', JStr (ev_section e))]"

definition json_of_result :: "result \<Rightarrow> json" where
  "json_of_result r =
     JObj [(''tone'', JStr (r_tone r)),
           (''tone_summary'', json_of_nullable (r_tone_summary r)),
           (''confidence'', JStr (r_confidence r)),
           (''key_positives'', JArr (map JStr (r_key_positives r))),
           (''key_concerns'', JArr (map JStr (r_key_concerns r))),
           (''forward_guidance'',
              JObj [(''revenue'', json_of_nullable (g_revenue (r_forward_guidance r))),
                    (''margin'', json_of_nullable (g_margin (r_forward_guidance r))),
                    (''capex'', json_of_nullable (g_capex (r_forward_guidance r))),
                    (''tax_rate'', json_of_nullable (g_tax_rate (r_forward_guidance r)))]),
           (''capacity_utilization_trends'', json_of_nullable (r_capacity_utilization_trends r)),
           (''growth_initiatives'', JArr (map JStr (r_growth_initiatives r))),
           (''evidence_quotes'', JArr (map json_of_evidence (r_evidence_quotes r))),
           (''missing_sections'', JArr (map JStr (r_missing_sections r)))]"

definition isLikelyUnderfilled :: "result \<Rightarrow> bool" where
  "isLikelyUnderfilled r =
     (let weakArrays = length (filter (\<lambda>arr. length arr = 0)
                          [r_key_positives r, r_key_concerns r, r_growth_initiatives r]);
          weakGuidance = list_all (\<lambda>v. v = None)
                          [g_revenue (r_forward_guidance r), g_margin (r_forward_guidance r),
                           g_capex (r_forward_guidance r), g_tax_rate (r_forward_guidance r)]
      in 2 \<le> weakArrays \<and> weakGuidance)"

section \<open>Analyzer\<close>

definition generateStructuredJson :: "env \<Rightarrow> nat \<Rightarrow> model_request \<Rightarrow> js_error + json" where
  "generateStructuredJson rt n req =
     (case generateContent rt n req of Inl e \<Rightarrow> Inl e | Inr raw \<Rightarrow> parseJsonSafely rt raw)"

definition no_text_placeholder :: string where
  "no_text_placeholder =
     ''No reliable extracted transcript text is available. Analyze the attached source document files directly.''"

text \<open>
  \<open>runOptionBAnalysis({ combinedText, documentParts })\<close>. The first component of the value
  lists the requests sent to the model, in order; the second is the returned Result or the
  exception thrown.
\<close>

definition runOptionBAnalysis ::
  "config \<Rightarrow> env \<Rightarrow> string \<Rightarrow> part list \<Rightarrow> model_request list \<times> (js_error + result)"
where
  "runOptionBAnalysis cfg rt combinedText documentParts =
     (if apiKey cfg = None \<or> apiKey cfg = Some [] then ([], Inl (Error ''GEMINI_API_KEY is missing''))
      else
        (let cleanedText = trim combinedText;
             hasText = (10 \<le> length cleanedText);
             hasDocs = (documentParts \<noteq> [])
         in if \<not> hasText \<and> \<not> hasDocs
            then ([], Inl (Error ''Transcript extraction returned too little text. Upload a text-based transcript (PDF/DOCX/TXT with selectable text).''))
            else
              (let effectiveText = (if hasText then cleanedText else no_text_placeholder);
                   req = \<lparr> req_prompt =
                             \<lparr> p_transcriptText = effectiveText,
                               p_lowSignal = (\<not> hasText \<or> length cleanedText < 400),
                               p_hasAttachedDocs = hasDocs,
                               p_retry = False \<rparr>,
                           req_documentParts = documentParts \<rparr>
               in case generateStructuredJson rt 0 req of
                    Inl e \<Rightarrow> ([req], Inl e)
                  | Inr parsed \<Rightarrow>
                      (let result = normalizeResult parsed
                       in if retryUnderfilled cfg \<and> isLikelyUnderfilled result
                          then
                            (let retryReq = req\<lparr>req_prompt := (req_prompt req)\<lparr>p_retry := True\<rparr>\<rparr>
                             in case generateStructuredJson rt 1 retryReq of
                                  Inl e \<Rightarrow> ([req, retryReq], Inl e)
                                | Inr retryParsed \<Rightarrow> ([req, retryReq], Inr (normalizeResult retryParsed)))
                          else ([req], Inr result)))))"

section \<open>Quota errors\<close>

text \<open>
  \<open>message.match(re)\<close> for a regular expression without the global flag: the match at the
  leftmost position where the expression matches. The first argument matches the expression
  at the start of a string and gives the text of its capture group.
\<close>

fun search :: "(string \<Rightarrow> string option) \<Rightarrow> string \<Rightarrow> string option" where
  "search here [] = here []"
| "search here (c # cs) = (case here (c # cs) of Some r \<Rightarrow> Some r | None \<Rightarrow> search here cs)"

text \<open>
  \<open>/retry in\s+(\d+(?:\.\d+)?)s/i\<close> at the start of a string. Every quantifier takes the
  longest run there is: giving back a character of a run never lets the rest match, since the
  next element of the expression cannot match a character of the run.
\<close>

definition is_s :: "string \<Rightarrow> bool" where
  "is_s r = (case r of [] \<Rightarrow> False | c # _ \<Rightarrow> toLowerChar c = CHR ''s'')"

definition retryIn_here :: "string \<Rightarrow> string option" where
  "retryIn_here s =
     (if toLowerCase (take 8 s) = ''retry in'' then
        (let r1 = drop 8 s;
             r2 = dropWhile is_ws r1;
             whole = takeWhile is_digit r2;
             r3 = dropWhile is_digit r2
         in if takeWhile is_ws r1 = [] \<or> whole = [] then None
            else (case r3 of
                    [] \<Rightarrow> None
                  | c # r4 \<Rightarrow>
                      (if c = CHR ''.'' \<and> takeWhile is_digit r4 \<noteq> []
                       then (if is_s (dropWhile is_digit r4)
                             then Some (whole @ CHR ''.'' # takeWhile is_digit r4) else None)
                       else (if is_s r3 then Some whole else None))))
      else None)"

text \<open>\<open>/retryDelay\\?":\\?"(\d+)s/i\<close> at the start of a string.\<close>

definition skip_backslash :: "string \<Rightarrow> string" where
  "skip_backslash r = (case r of [] \<Rightarrow> [] | c # cs \<Rightarrow> (if c = CHR 0x5C then cs else c # cs))"

definition retryDelay_here :: "string \<Rightarrow> string option" where
  "retryDelay_here s =
     (if toLowerCase (take 10 s) = ''retrydelay'' then
        (case skip_backslash (drop 10 s) of
           q # col # r1 \<Rightarrow>
             (if q = CHR 0x22 \<and> col = CHR '':'' then
                (case skip_backslash r1 of
                   q' # r2 \<Rightarrow>
                     (if q' = CHR 0x22 \<and> takeWhile is_digit r2 \<noteq> [] \<and> is_s (dropWhile is_digit r2)
                      then Some (takeWhile is_digit r2) else None)
                 | [] \<Rightarrow> None)
              else None)
         | _ \<Rightarrow> None)
      else None)"

text \<open>
  \<open>Math.ceil(x)\<close> and \<open>Math.max(1, x)\<close>. The ceiling of a double is a double.
\<close>

fun Math_ceil :: "js_number \<Rightarrow> js_number" where
  "Math_ceil (Finite q) = Finite (of_int \<lceil>q\<rceil>)"
| "Math_ceil Infinity = Infinity"

fun Math_max_1 :: "js_number \<Rightarrow> js_number" where
  "Math_max_1 (Finite q) = Finite (max 1 q)"
| "Math_max_1 Infinity = Infinity"

text \<open>
  \<^verbatim>\<open>if (retryIn?.[1]) return Math.max(1, Math.ceil(Number(retryIn[1])));\<close>
  \<^verbatim>\<open>if (retryDelay?.[1]) return Number(retryDelay[1]);\<close>
  A capture group that took part in a match is a string that is not empty, so both tests
  succeed when the expression matches.
\<close>

definition extractRetryAfterSeconds :: "env \<Rightarrow> string \<Rightarrow> js_number option" where
  "extractRetryAfterSeconds rt msg =
     (if msg = [] then None
      else (case search retryIn_here msg of
              Some t \<Rightarrow> Some (Math_max_1 (Math_ceil (Number rt t)))
            | None \<Rightarrow>
                (case search retryDelay_here msg of
                   Some ds \<Rightarrow> Some (Number rt ds)
                 | None \<Rightarrow> None)))"

definition looksLikeQuota :: "string \<Rightarrow> bool" where
  "looksLikeQuota msg =
     (includes_str msg ''429''
      \<or> includes_str (toLowerCase msg) ''quota exceeded''
      \<or> includes_str (toLowerCase msg) ''too many requests''
      \<or> includes_str (toLowerCase msg) ''rate limit'')"

definition quota_message :: string where
  "quota_message =
     ''Gemini API quota/rate limit reached. Retry after the cooldown or use a billed API key/model with higher limits.''"

text \<open>\<open>parseGeminiQuotaError(error)\<close>: \<open>null\<close>, or the message and \<open>retryAfterSeconds\<close>.\<close>

definition parseGeminiQuotaError :: "env \<Rightarrow> js_error \<Rightarrow> (string \<times> js_number option) option"
where
  "parseGeminiQuotaError rt error =
     (if \<not> looksLikeQuota (message error) then None
      else Some (quota_message, extractRetryAfterSeconds rt (message error)))"

text \<open>
  \<open>retryAfterSeconds\<close> in the body that \<open>res.json\<close> writes: \<open>JSON.stringify\<close> writes
  \<open>null\<close> for \<open>null\<close> and for a number that is not finite.
\<close>

fun json_number :: "js_number option \<Rightarrow> rat option" where
  "json_number (Some (Finite q)) = Some q"
| "json_number (Some Infinity) = None"
| "json_number None = None"

text \<open>The \<open>catch\<close> block of \<open>POST /api/analyze\<close>.\<close>

definition analyze_catch :: "env \<Rightarrow> js_error \<Rightarrow> response" where
  "analyze_catch rt error =
     (case parseGeminiQuotaError rt error of
        Some quota \<Rightarrow> Response 429 (RateLimitedBody (fst quota) (json_number (snd quota)))
      | None \<Rightarrow>
          Response 500 (ErrorBody (if message error \<noteq> [] then message error
                                   else ''Analysis failed'')))"

section \<open>Analysis Orchestrator\<close>

text \<open>
  \<open>ids.map((id) => documents.get(id)).filter(Boolean)\<close>: the references to the stored
  documents, given by their keys. The keys of the store are strings, so an identifier that is
  not a string finds nothing.
\<close>

fun resolve :: "state \<Rightarrow> json list \<Rightarrow> string list" where
  "resolve st [] = []"
| "resolve st (JStr k # ids) = (if documents st k \<noteq> None then k # resolve st ids else resolve st ids)"
| "resolve st (_ # ids) = resolve st ids"

text \<open>The objects the references of the selection point to.\<close>

definition deref :: "state \<Rightarrow> string list \<Rightarrow> document list" where
  "deref st selected = List.map_filter (documents st) selected"

definition document_block :: "document \<Rightarrow> string" where
  "document_block doc = ''Document: '' @ doc_name doc @ [CHR 0x0A] @ doc_text doc"

definition extractedOnly :: "document list \<Rightarrow> string" where
  "extractedOnly selected = join [CHR 0x0A, CHR 0x0A] (map doc_text selected)"

definition block_separator :: string where
  "block_separator = [CHR 0x0A, CHR 0x0A] @ ''---'' @ [CHR 0x0A, CHR 0x0A]"

definition combined :: "config \<Rightarrow> document list \<Rightarrow> string" where
  "combined cfg selected =
     slice0 (maxInputChars cfg) (join block_separator (map document_block selected))"

text \<open>\<open>extractedSignal < minAnalysisSignal\<close>: the request is analysed in multimodal mode.\<close>

definition multimodal :: "config \<Rightarrow> document list \<Rightarrow> bool" where
  "multimodal cfg selected =
     (int (getSignalLength (Some (extractedOnly selected))) < minAnalysisSignal cfg)"

definition documentParts :: "config \<Rightarrow> env \<Rightarrow> document list \<Rightarrow> part list" where
  "documentParts cfg rt selected =
     (if multimodal cfg selected then buildDocumentParts cfg rt selected else [])"

definition analysisText :: "config \<Rightarrow> document list \<Rightarrow> string" where
  "analysisText cfg selected =
     (if multimodal cfg selected then extractedOnly selected else combined cfg selected)"

definition insufficient_message :: string where
  "insufficient_message =
     ''No readable transcript content found after extraction and OCR fallback, and source files could not be attached for multimodal analysis.''"

definition detail_of :: "document \<Rightarrow> detail" where
  "detail_of doc =
     \<lparr> det_id = doc_id doc, det_name = doc_name doc, det_textChars = doc_textChars doc,
       det_textPreview = slice0 120 (doc_text doc) \<rparr>"

text \<open>
  \<open>POST /api/analyze\<close>, on the value of \<open>req.body?.documentIds\<close>, in three parts. The
  first part validates the request, resolves the identifiers and runs OCR recovery when it is
  switched on: it gives the response of an early return, or the state of the stores and the
  selected documents as they are when the signal is computed.
\<close>

definition select_documents ::
  "config \<Rightarrow> env \<Rightarrow> state \<Rightarrow> json option \<Rightarrow> response + (state \<times> document list)"
where
  "select_documents cfg rt st documentIds =
     (case documentIds of
        Some (JArr (i # ids)) \<Rightarrow>
          (let refs = resolve st (i # ids)
           in if refs = [] then Inl (Response 404 (ErrorBody ''No matching documents found''))
              else
                (let st1 = (if enableOcrRecoveryOnAnalyze cfg
                            then recoverWeakPdfDocuments cfg rt st refs else st)
                 in Inr (st1, deref st1 refs)))
      | _ \<Rightarrow> Inl (Response 400 (ErrorBody ''documentIds must be a non-empty array'')))"

text \<open>
  The last part takes what \<open>runOptionBAnalysis\<close> gave: the requests sent to the model, and
  the Result, which is stored in a new run, or the exception, which the \<open>catch\<close> block
  translates.
\<close>

definition respond ::
  "config \<Rightarrow> env \<Rightarrow> state \<Rightarrow> document list \<Rightarrow> model_request list \<times> (js_error + result)
     \<Rightarrow> state \<times> response \<times> model_request list"
where
  "respond cfg rt st selected outcome =
     (case outcome of
        (sent, Inl error) \<Rightarrow> (st, analyze_catch rt error, sent)
      | (sent, Inr result) \<Rightarrow>
          (st\<lparr>analysisRuns := (analysisRuns st)(newRunId rt \<mapsto>
                 \<lparr> run_runId = newRunId rt,
                   run_createdAt = now rt,
                   run_documentIds = map doc_id selected,
                   run_documentNames = map doc_name selected,
                   run_result = result \<rparr>)\<rparr>,
           Response 200 (AnalysisBody (newRunId rt) result (map maskDocument selected)),
           sent))"

text \<open>
  The middle part chooses the mode, builds the text and the parts, and calls the analyzer.
  The value is the new state of the stores, the response, and the requests that were sent to
  the model.
\<close>

definition analyze_selected ::
  "config \<Rightarrow> env \<Rightarrow> state \<Rightarrow> document list \<Rightarrow> state \<times> response \<times> model_request list"
where
  "analyze_selected cfg rt st selected =
     (if multimodal cfg selected \<and> documentParts cfg rt selected = []
      then (st, Response 400 (InsufficientBody insufficient_message (map detail_of selected)), [])
      else respond cfg rt st selected
             (runOptionBAnalysis cfg rt (analysisText cfg selected) (documentParts cfg rt selected)))"

definition analyze ::
  "config \<Rightarrow> env \<Rightarrow> state \<Rightarrow> json option \<Rightarrow> state \<times> response \<times> model_request list"
where
  "analyze cfg rt st documentIds =
     (case select_documents cfg rt st documentIds of
        Inl early \<Rightarrow> (st, early, [])
      | Inr (st1, selected) \<Rightarrow> analyze_selected cfg rt st1 selected)"

section \<open>The states the service reaches\<close>

text \<open>
  The stores are empty when the process starts; the upload and the analyze handlers are the
  only code that writes to them.
\<close>

definition initial_state :: state where
  "initial_state = \<lparr> documents = Map.empty, analysisRuns = Map.empty \<rparr>"

inductive reachable :: "config \<Rightarrow> state \<Rightarrow> bool" for cfg :: config where
  reachable_initial: "reachable cfg initial_state"
| reachable_upload: "reachable cfg st \<Longrightarrow> reachable cfg (fst (upload cfg rt st files))"
| reachable_analyze: "reachable cfg st \<Longrightarrow> reachable cfg (fst (analyze cfg rt st documentIds))"

text \<open>The invariant of a Document.\<close>

definition document_invariant :: "document \<Rightarrow> bool" where
  "document_invariant doc =
     (doc_textChars doc = length (doc_text doc) \<and> (doc_textWords doc = 0) = (doc_text doc = []))"

section \<open>Predicates of the properties\<close>

text \<open>
  The notions in which the properties below are stated. They are written from the wording of
  the properties and say what a value is, where the functions above say how the program
  computes it; the theorems relate the two.
\<close>

text \<open>Every stored document satisfies the invariant.\<close>

definition store_ok :: "state \<Rightarrow> bool" where
  "store_ok st = (\<forall>k d. documents st k = Some d \<longrightarrow> document_invariant d)"

text \<open>
  A document without its text and the two counts derived from it; and the relation between
  two states of the stores in which every document of the second is a document of the first
  up to these three fields.
\<close>

definition other_fields :: "document \<Rightarrow> document" where
  "other_fields doc = doc\<lparr>doc_text := [], doc_textChars := 0, doc_textWords := 0\<rparr>"

definition only_text_changed :: "state \<Rightarrow> state \<Rightarrow> bool" where
  "only_text_changed st st' =
     (\<forall>k doc'. documents st' k = Some doc' \<longrightarrow>
        (\<exists>doc. documents st k = Some doc \<and> other_fields doc' = other_fields doc))"

text \<open>
  An entry of \<open>evidence_quotes\<close> whose \<open>quote\<close> is a string with more than ten characters
  after trimming.
\<close>

definition has_long_quote :: "json \<Rightarrow> bool" where
  "has_long_quote item =
     (case get_prop (Some item) ''quote'' of Some (JStr q) \<Rightarrow> 10 < length (trim q) | _ \<Rightarrow> False)"

text \<open>
  What a candidate at position \<open>i\<close> of the loop of \<open>buildDocumentParts\<close> contributes: its
  bytes when they are retrieved, are not empty and are within the byte cap, and then the label
  and the payload of the document.
\<close>

definition retrieved :: "config \<Rightarrow> env \<Rightarrow> nat \<Rightarrow> document \<Rightarrow> buffer option" where
  "retrieved cfg rt i doc =
     (case getDocumentBuffer rt (parts_fetch rt i) doc of
        Inr (Some b) \<Rightarrow> (if b \<noteq> [] \<and> int (length b) \<le> maxMultimodalBytes cfg then Some b else None)
      | _ \<Rightarrow> None)"

definition attachment :: "config \<Rightarrow> env \<Rightarrow> nat \<times> document \<Rightarrow> part list" where
  "attachment cfg rt c =
     (case retrieved cfg rt (fst c) (snd c) of
        None \<Rightarrow> []
      | Some b \<Rightarrow> [TextPart (''Source Document: '' @ doc_name (snd c)),
                   InlineData ''application/pdf'' (toBase64 rt b)])"

text \<open>
  The trimmed response without its fences, \<open>withoutFences\<close> in \<open>parseJsonSafely\<close>.
\<close>

definition without_fences :: "string option \<Rightarrow> string" where
  "without_fences raw = strip_trailing_fence (strip_leading_fence (trim (or_empty raw)))"

text \<open>
  The text of a decimal numeral: the digits of its whole part, and a point and the digits of
  its fraction when it has one.
\<close>

definition number_text :: "string \<Rightarrow> string \<Rightarrow> string" where
  "number_text whole fraction = whole @ (if fraction = [] then [] else CHR ''.'' # fraction)"

text \<open>
  The natural number that a run of decimal digits denotes, and the rational that the decimal
  numeral with the given whole part and fraction denotes.
\<close>

definition digit_value :: "char \<Rightarrow> nat" where
  "digit_value c = of_char c - 48"

definition number_of_digits :: "string \<Rightarrow> nat" where
  "number_of_digits ds = foldl (\<lambda>n c. 10 * n + digit_value c) 0 ds"

definition decimal_value :: "string \<Rightarrow> string \<Rightarrow> rat" where
  "decimal_value whole fraction =
     of_nat (number_of_digits whole) + of_nat (number_of_digits fraction) / 10 ^ length fraction"

text \<open>
  A string starts with a phrase \<open>retry in N s\<close>: the words \<open>retry in\<close> in any case, white
  space, the decimal numeral \<open>N\<close> and the letter \<open>s\<close> in either case.
\<close>

definition retry_in_phrase :: "string \<Rightarrow> string \<Rightarrow> string \<Rightarrow> bool" where
  "retry_in_phrase s whole fraction =
     (\<exists>lit ws c rest.
        s = lit @ ws @ number_text whole fraction @ c # rest
        \<and> toLowerCase lit = ''retry in''
        \<and> ws \<noteq> [] \<and> (\<forall>x\<in>set ws. is_ws x)
        \<and> whole \<noteq> [] \<and> (\<forall>d\<in>set (whole @ fraction). is_digit d)
        \<and> toLowerChar c = CHR ''s'')"

text \<open>
  A string starts with a field \<open>retryDelay":"Ns\<close>: the word \<open>retryDelay\<close> in any case, a
  double quote, a colon and a double quote, each quote after at most one backslash, the digits
  of \<open>N\<close> and the letter \<open>s\<close> in either case.
\<close>

definition retry_delay_field :: "string \<Rightarrow> string \<Rightarrow> bool" where
  "retry_delay_field s ds =
     (\<exists>lit b1 b2 c rest.
        s = lit @ b1 @ [CHR 0x22, CHR '':''] @ b2 @ [CHR 0x22] @ ds @ c # rest
        \<and> toLowerCase lit = ''retrydelay''
        \<and> (b1 = [] \<or> b1 = [CHR 0x5C]) \<and> (b2 = [] \<or> b2 = [CHR 0x5C])
        \<and> ds \<noteq> [] \<and> (\<forall>d\<in>set ds. is_digit d)
        \<and> toLowerChar c = CHR ''s'')"

text \<open>
  A message contains a text without regard to case, and the signature of a rate limit or an
  exhausted quota.
\<close>

definition contains_ci :: "string \<Rightarrow> string \<Rightarrow> bool" where
  "contains_ci msg needle = (\<exists>pre mid post. msg = pre @ mid @ post \<and> toLowerCase mid = needle)"

definition quota_signature :: "string \<Rightarrow> bool" where
  "quota_signature msg =
     (sublist ''429'' msg \<or> contains_ci msg ''quota exceeded''
      \<or> contains_ci msg ''too many requests'' \<or> contains_ci msg ''rate limit'')"

text \<open>
  The text that the claim on the text mode names: the blocks \<open>Document: <name>\<close>, line feed,
  \<open><text>\<close> of the selected documents in order, joined by the separator and cut to the
  character budget. And the request that carries a transcript and no parts, first or retried.
\<close>

definition blocks_text :: "config \<Rightarrow> document list \<Rightarrow> string" where
  "blocks_text cfg selected =
     take (nat (maxInputChars cfg))
       (join ''\<newline>\<newline>---\<newline>\<newline>''
          (map (\<lambda>doc. ''Document: '' @ doc_name doc @ ''\<newline>'' @ doc_text doc) selected))"

definition text_request :: "string \<Rightarrow> bool \<Rightarrow> model_request" where
  "text_request transcript retry =
     \<lparr> req_prompt = \<lparr> p_transcriptText = transcript, p_lowSignal = (length transcript < 400),
                      p_hasAttachedDocs = False, p_retry = retry \<rparr>,
       req_documentParts = [] \<rparr>"

section \<open>Example inputs\<close>

text \<open>
  A runtime in which the OCR call reads two words, every download fails and the model call
  fails with a quota error. Its \<open>Number\<close> is \<open>Number\<close> on the four numerals of the
  examples: the double nearest to \<open>50.417968038\<close> is \<open>1773924547411831 / 2 ^ 45\<close>, and the
  double nearest to \<open>1.00000000000000000001\<close> is 1. Its base64 codec is the codec of \<open>Buffer\<close> on the buffers of
  the examples, which hold zero bytes and have a length that is a multiple of three. Then a
  scanned PDF without extractable text, and the stores after the upload of the scan and after
  its analysis with OCR recovery switched on.
\<close>

definition example_Number :: "string \<Rightarrow> js_number" where
  "example_Number t =
     (if t = ''0'' then Finite 0
      else if t = ''50'' then Finite 50
      else if t = ''50.417968038'' then Finite (1773924547411831 / 2 ^ 45)
      else if t = ''1.00000000000000000001'' then Finite 1
      else Infinity)"

definition example_env :: env where
  "example_env =
     \<lparr> toBase64 = (\<lambda>b. replicate (4 * (length b div 3)) (CHR ''A'')),
       fromBase64 = (\<lambda>s. replicate (3 * (length s div 4)) 0),
       JSON_parse = (\<lambda>s. Inl ''Unexpected token''),
       Number = example_Number,
       recovery_fetch = (\<lambda>i u. Inl (Error ''offline'')),
       ocr_generate = (\<lambda>i b. Inr (Some ''Hello  world'')),
       parts_fetch = (\<lambda>i u. Inl (Error ''offline'')),
       generateContent = (\<lambda>n r. Inl (Error ''429 Too Many Requests'')),
       newRunId = ''run-1'',
       now = ''2024-01-01T00:00:00.000Z'' \<rparr>"

definition scan_file :: "upload_file \<times> upload_io" where
  "scan_file =
     (\<lparr> file_originalname = ''scan.pdf'', file_mimetype = ''application/pdf'',
        file_size = 3, file_buffer = [0, 0, 0] \<rparr>,
      \<lparr> io_extracted = Inr (Some '' ''),
        io_cloudinary = Inr \<lparr> cl_url = Some ''https://res.example/scan.pdf'',
                              cl_publicId = Some ''scan'', cl_resourceType = Some ''raw'' \<rparr>,
        io_uuid = ''d1'', io_now = ''2024-01-01T00:00:00.000Z'' \<rparr>)"

definition ocr_config :: config where
  "ocr_config = default_config\<lparr>enableOcrRecoveryOnAnalyze := True\<rparr>"

definition uploaded_state :: state where
  "uploaded_state = fst (upload ocr_config example_env initial_state [scan_file])"

definition recovered_state :: state where
  "recovered_state =
     fst (analyze ocr_config example_env uploaded_state (Some (JArr [JStr ''d1''])))"

definition recovered_doc :: document where
  "recovered_doc =
     \<lparr> doc_id = ''d1'', doc_name = ''scan.pdf'', doc_mimetype = ''application/pdf'',
       doc_size = 3, doc_uploadedAt = ''2024-01-01T00:00:00.000Z'',
       doc_text = ''Hello world'', doc_textChars = 11, doc_textWords = 2,
       doc_cloudinary = \<lparr> cl_url = Some ''https://res.example/scan.pdf'',
                            cl_publicId = Some ''scan'', cl_resourceType = Some ''raw'' \<rparr>,
       doc_sourceForAnalysis =
         Some \<lparr> src_mimeType = ''application/pdf'', src_data = ''AAAA'' \<rparr> \<rparr>"

text \<open>A model response with a quote that has no section, and one of every kind of field.\<close>

definition quote_without_section :: json where
  "quote_without_section = JObj [(''quote'', JStr ''Revenue grew 12% year over year'')]"

definition example_response :: json where
  "example_response =
     JObj [(''tone'', JStr ''optimistic''),
           (''tone_summary'', JStr ''  Not Mentioned ''),
           (''confidence'', JNum 3),
           (''key_positives'', JArr [JStr '' Volume growth up 5% '', JNull, JStr '' '']),
           (''forward_guidance'', JObj [(''margin'', JStr ''150-200 bps'')]),
           (''evidence_quotes'',
              JArr [JObj [(''quote'', JStr ''too short''), (''section'', JStr ''Q&A'')],
                    quote_without_section,
                    JObj [(''quote'', JNum 12345678901), (''section'', JStr ''Q&A'')]])]"

text \<open>
  A stored document with the given name, media type, text and retained payload (none when
  the payload is empty), for the examples.
\<close>

definition example_doc :: "string \<Rightarrow> string \<Rightarrow> string \<Rightarrow> string \<Rightarrow> document" where
  "example_doc name mimetype text payload =
     \<lparr> doc_id = name, doc_name = name, doc_mimetype = mimetype, doc_size = 3,
       doc_uploadedAt = ''2024-01-01T00:00:00.000Z'',
       doc_text = text, doc_textChars = length text,
       doc_textWords = length (filter (\<lambda>w. w \<noteq> []) (split_ws text)),
       doc_cloudinary = \<lparr> cl_url = Some (''https://res.example/'' @ name),
                            cl_publicId = Some name, cl_resourceType = Some ''raw'' \<rparr>,
       doc_sourceForAnalysis =
         (if payload = [] then None
          else Some \<lparr> src_mimeType = ''application/pdf'', src_data = payload \<rparr>) \<rparr>"

text \<open>
  Four PDFs and a text file in one selection. The first PDF has no retained payload and its
  download fails in \<open>example_env\<close>.
\<close>

definition five_documents :: "document list" where
  "five_documents =
     [example_doc ''a.pdf'' ''application/pdf'' [] [],
      example_doc ''b.PDF'' ''application/octet-stream'' [] ''AAAA'',
      example_doc ''notes.txt'' ''text/plain'' [] ''AAAA'',
      example_doc ''c'' ''application/pdf'' [] ''AAAAAAAA'',
      example_doc ''d.pdf'' ''application/pdf'' [] ''AAAA'']"

text \<open>
  The stores after the upload of a text file with a short note, and after the upload of a
  text file with a sentence of a report.
\<close>

definition text_file :: "string \<Rightarrow> string \<Rightarrow> string \<Rightarrow> upload_file \<times> upload_io" where
  "text_file uuid name text =
     (\<lparr> file_originalname = name, file_mimetype = ''text/plain'',
        file_size = length text, file_buffer = map of_char text \<rparr>,
      \<lparr> io_extracted = Inr (Some text),
        io_cloudinary = Inr \<lparr> cl_url = Some (''https://res.example/'' @ name),
                              cl_publicId = Some name, cl_resourceType = Some ''raw'' \<rparr>,
        io_uuid = uuid, io_now = ''2024-01-01T00:00:00.000Z'' \<rparr>)"

definition note_state :: state where
  "note_state =
     fst (upload default_config example_env initial_state [text_file ''n1'' ''note.txt'' ''short note''])"

definition note_doc :: document where
  "note_doc =
     \<lparr> doc_id = ''n1'', doc_name = ''note.txt'', doc_mimetype = ''text/plain'', doc_size = 10,
       doc_uploadedAt = ''2024-01-01T00:00:00.000Z'',
       doc_text = ''short note'', doc_textChars = 10, doc_textWords = 2,
       doc_cloudinary = \<lparr> cl_url = Some ''https://res.example/note.txt'',
                            cl_publicId = Some ''note.txt'', cl_resourceType = Some ''raw'' \<rparr>,
       doc_sourceForAnalysis = None \<rparr>"

definition report_text :: string where
  "report_text = ''Revenue grew 12% year over year and margins expanded by 150 bps.''"

definition report_state :: state where
  "report_state =
     fst (upload default_config example_env initial_state [text_file ''r1'' ''report.txt'' report_text])"

definition report_doc :: document where
  "report_doc =
     \<lparr> doc_id = ''r1'', doc_name = ''report.txt'', doc_mimetype = ''text/plain'', doc_size = 64,
       doc_uploadedAt = ''2024-01-01T00:00:00.000Z'',
       doc_text = report_text, doc_textChars = 64, doc_textWords = 12,
       doc_cloudinary = \<lparr> cl_url = Some ''https://res.example/report.txt'',
                            cl_publicId = Some ''report.txt'', cl_resourceType = Some ''raw'' \<rparr>,
       doc_sourceForAnalysis = None \<rparr>"

text \<open>
  The stores after the upload of the report together with an empty text file.
\<close>

definition blank_state :: state where
  "blank_state =
     fst (upload default_config example_env initial_state
            [text_file ''r1'' ''report.txt'' report_text, text_file ''b1'' ''blank.txt'' []])"

definition blank_doc :: document where
  "blank_doc =
     \<lparr> doc_id = ''b1'', doc_name = ''blank.txt'', doc_mimetype = ''text/plain'', doc_size = 0,
       doc_uploadedAt = ''2024-01-01T00:00:00.000Z'',
       doc_text = [], doc_textChars = 0, doc_textWords = 0,
       doc_cloudinary = \<lparr> cl_url = Some ''https://res.example/blank.txt'',
                            cl_publicId = Some ''blank.txt'', cl_resourceType = Some ''raw'' \<rparr>,
       doc_sourceForAnalysis = None \<rparr>"

text \<open>
  A \<open>JSON.parse\<close> for the examples: it agrees with \<open>JSON.parse\<close> on the object it knows
  and on the texts of the examples, none of which is JSON.
\<close>

definition example_parser :: "string \<Rightarrow> string + json" where
  \<open>example_parser s =
     (if s = ''{"tone":"neutral"}'' then Inr (JObj [(''tone'', JStr ''neutral'')])
      else Inl ''Unexpected token'')\<close>

definition parser_env :: env where
  "parser_env = example_env\<lparr>JSON_parse := example_parser\<rparr>"

section \<open>Removing white space\<close>

lemma replace_ws_runs_filter: "replace_ws_runs s = filter (\<lambda>c. \<not> is_ws c) s"
proof (induction s rule: replace_ws_runs.induct)
  case 1
  show ?case by simp
next
  case (2 c cs)
  have drop: "filter (\<lambda>c. \<not> is_ws c) (dropWhile is_ws cs) = filter (\<lambda>c. \<not> is_ws c) cs"
    by (induction cs) auto
  show ?case
  proof (cases "is_ws c")
    case True
    with 2 drop show ?thesis by simp
  next
    case False
    with 2 show ?thesis by simp
  qed
qed

text \<open>
  The signal length of texts joined by blank lines, the combined signal length of the
  analysis, is the sum of their signal lengths.
\<close>

lemma filter_join:
  "\<forall>c\<in>set sep. \<not> P c \<Longrightarrow> filter P (join sep xs) = concat (map (filter P) xs)"
  by (induction sep xs rule: join.induct) (auto simp: filter_empty_conv)

lemma combined_signal:
  "getSignalLength (Some (join ''\<newline>\<newline>'' texts))
   = sum_list (map (\<lambda>t. getSignalLength (Some t)) texts)"
proof -
  have "\<forall>c\<in>set ''\<newline>\<newline>''. \<not> \<not> is_ws c" by (simp add: is_ws_def)
  then have "filter (\<lambda>c. \<not> is_ws c) (join ''\<newline>\<newline>'' texts)
             = concat (map (filter (\<lambda>c. \<not> is_ws c)) texts)"
    by (rule filter_join)
  then show ?thesis
    by (simp add: getSignalLength_def or_empty_def replace_ws_runs_filter length_concat o_def)
qed

section \<open>The Text Signal Estimator\<close>

text \<open>
  C8. The Text Signal Estimator is a function of its argument only, and for every text its
  value is the number of characters that are not white space: the length of the text minus the
  number of its white-space characters. It therefore never exceeds the length of the text.
\<close>

theorem C8_signal_length:
  "getSignalLength (Some s) = length (filter (\<lambda>c. \<not> is_ws c) s)
   \<and> getSignalLength (Some s) = length s - length (filter is_ws s)
   \<and> getSignalLength (Some s) + length (filter is_ws s) = length s
   \<and> getSignalLength (Some s) \<le> length s
   \<and> isWeakText m (Some s) = (int (getSignalLength (Some s)) < m)"
proof -
  have "length (filter (\<lambda>c. \<not> is_ws c) s) + length (filter is_ws s) = length s"
    using sum_length_filter_compl [of is_ws s] by simp
  then show ?thesis
    by (simp add: getSignalLength_def isWeakText_def or_empty_def replace_ws_runs_filter)
qed

section \<open>The document invariant\<close>

lemma trim_has_non_ws: "trim s \<noteq> [] \<Longrightarrow> \<exists>c\<in>set (trim s). \<not> is_ws c"
proof -
  assume ne: "trim s \<noteq> []"
  let ?u = "dropWhile is_ws (rev (dropWhile is_ws s))"
  from ne have u: "?u \<noteq> []" by (simp add: trim_def)
  then have "\<not> is_ws (hd ?u)" by (rule hd_dropWhile)
  moreover from u have "hd ?u \<in> set (trim s)" by (simp add: trim_def)
  ultimately show ?thesis by blast
qed

lemma split_ws_from_nonempty: "split_ws_from p s \<noteq> []"
  by (induction p s rule: split_ws_from.induct) auto

lemma split_ws_from_has_word:
  "p \<noteq> [] \<or> (\<exists>c\<in>set s. \<not> is_ws c) \<Longrightarrow> \<exists>w\<in>set (split_ws_from p s). w \<noteq> []"
proof (induction p s rule: split_ws_from.induct)
  case (1 piece)
  then show ?case by simp
next
  case (2 piece c cs)
  show ?case
  proof (cases "is_ws c")
    case True
    show ?thesis
    proof (cases "piece = []")
      case False
      with True show ?thesis by simp
    next
      case pe: True
      with 2(3) True obtain d where d: "d \<in> set cs" "\<not> is_ws d" by auto
      then have "d \<in> set (dropWhile is_ws cs)"
        by (metis (no_types, lifting) UnE set_append set_takeWhileD takeWhile_dropWhile_id)
      with d 2(1)[OF True] True show ?thesis by auto
    qed
  next
    case False
    with 2(2)[OF False] show ?thesis by simp
  qed
qed

lemma words_of_normalized:
  assumes "normalizeExtractedText t \<noteq> []"
  shows "filter (\<lambda>w. w \<noteq> []) (split_ws (normalizeExtractedText t)) \<noteq> []"
proof -
  from assms have "\<exists>c\<in>set (normalizeExtractedText t). \<not> is_ws c"
    unfolding normalizeExtractedText_def by (rule trim_has_non_ws)
  then have "\<exists>w\<in>set (split_ws (normalizeExtractedText t)). w \<noteq> []"
    unfolding split_ws_def by (intro split_ws_from_has_word) simp
  then show ?thesis by (auto simp: filter_empty_conv)
qed

lemma make_document_invariant:
  "document_invariant (make_document cfg rt file (normalizeExtractedText t) cl uuid time)"
  by (simp add: document_invariant_def make_document_def split_ws_def split_ws_from_nonempty)

lemma recover_one_ok: "store_ok st \<Longrightarrow> store_ok (recover_one cfg rt st i k)"
  unfolding store_ok_def recover_one_def
  by (auto simp: Let_def document_invariant_def words_of_normalized
           split: option.splits sum.splits)

lemma recover_loop_ok: "store_ok st \<Longrightarrow> store_ok (recover_loop cfg rt st i ks)"
  by (induction ks arbitrary: st i) (auto simp: recover_one_ok)

lemma upload_one_ok: "store_ok st \<Longrightarrow> upload_one cfg rt st fio = Inr (st', m) \<Longrightarrow> store_ok st'"
  unfolding store_ok_def upload_one_def
  by (auto simp: Let_def make_document_invariant split: sum.splits if_splits)

lemma upload_files_ok: "store_ok st \<Longrightarrow> store_ok (fst (upload_files cfg rt st fios up))"
proof (induction fios arbitrary: st up)
  case Nil
  then show ?case by simp
next
  case (Cons fio fios)
  show ?case
  proof (cases "upload_one cfg rt st fio")
    case (Inl e)
    with Cons.prems show ?thesis by simp
  next
    case (Inr p)
    obtain st' m where p: "p = (st', m)" by (cases p)
    with Inr Cons.prems have "store_ok st'" by (auto dest: upload_one_ok)
    from Cons.IH[OF this] Inr p show ?thesis by simp
  qed
qed

lemma upload_ok: "store_ok st \<Longrightarrow> store_ok (fst (upload cfg rt st files))"
  using upload_files_ok [of st cfg rt files "[]"]
  by (auto simp: upload_def split: prod.splits sum.splits)

lemma select_documents_ok:
  "store_ok st \<Longrightarrow> select_documents cfg rt st ids = Inr (st1, selected) \<Longrightarrow> store_ok st1"
  unfolding select_documents_def recoverWeakPdfDocuments_def
  by (auto simp: Let_def recover_loop_ok
           split: option.splits json.splits list.splits if_splits)

lemma analyze_selected_documents:
  "documents (fst (analyze_selected cfg rt st selected)) = documents st"
  by (simp add: analyze_selected_def respond_def split: prod.splits sum.splits)

lemma analyze_ok: "store_ok st \<Longrightarrow> store_ok (fst (analyze cfg rt st ids))"
proof (cases "select_documents cfg rt st ids")
  case (Inl early)
  assume "store_ok st"
  with Inl show ?thesis by (simp add: analyze_def)
next
  case (Inr p)
  assume ok: "store_ok st"
  obtain st1 selected where p: "p = (st1, selected)" by (cases p)
  from ok Inr p have "store_ok st1" by (auto dest: select_documents_ok)
  then have "store_ok (fst (analyze_selected cfg rt st1 selected))"
    by (simp add: store_ok_def analyze_selected_documents)
  with Inr p show ?thesis by (simp add: analyze_def)
qed

lemma reachable_ok: "reachable cfg st \<Longrightarrow> store_ok st"
proof (induction rule: reachable.induct)
  case reachable_initial
  show ?case by (simp add: store_ok_def initial_state_def)
next
  case (reachable_upload st rt files)
  then show ?case by (simp add: upload_ok)
next
  case (reachable_analyze st rt documentIds)
  then show ?case by (simp add: analyze_ok)
qed

text \<open>
  The analyze handler, the only code that changes a stored document, changes nothing of it
  but the text and the two counts.
\<close>

lemma only_text_changed_refl: "only_text_changed st st"
  by (simp add: only_text_changed_def)

lemma only_text_changed_trans:
  "only_text_changed a b \<Longrightarrow> only_text_changed b c \<Longrightarrow> only_text_changed a c"
  unfolding only_text_changed_def by metis

lemma recover_one_frame: "only_text_changed st (recover_one cfg rt st i k)"
  unfolding only_text_changed_def recover_one_def
  by (auto simp: Let_def other_fields_def split: option.splits sum.splits if_splits)

lemma recover_loop_frame: "only_text_changed st (recover_loop cfg rt st i ks)"
proof (induction ks arbitrary: st i)
  case Nil
  show ?case by (simp add: only_text_changed_refl)
next
  case (Cons k ks)
  show ?case
    using only_text_changed_trans [OF recover_one_frame Cons.IH] by simp
qed

lemma select_documents_frame:
  "select_documents cfg rt st ids = Inr (st1, selected) \<Longrightarrow> only_text_changed st st1"
  unfolding select_documents_def recoverWeakPdfDocuments_def
  by (auto simp: Let_def recover_loop_frame only_text_changed_refl
           split: option.splits json.splits list.splits if_splits)

lemma analyze_frame: "only_text_changed st (fst (analyze cfg rt st ids))"
proof (cases "select_documents cfg rt st ids")
  case (Inl early)
  then show ?thesis by (simp add: analyze_def only_text_changed_refl)
next
  case (Inr p)
  obtain st1 selected where p: "p = (st1, selected)" by (cases p)
  from Inr p have "only_text_changed st st1" by (auto dest: select_documents_frame)
  then have "only_text_changed st (fst (analyze_selected cfg rt st1 selected))"
    by (simp add: only_text_changed_def analyze_selected_documents)
  with Inr p show ?thesis by (simp add: analyze_def)
qed

text \<open>
  C9. Every document of the Document Store, in every state the service reaches from the empty
  stores by uploads and analyses (OCR recovery, which overwrites the text and both counts
  together, is the only mutation of a stored document and is part of the analysis), has
  \<open>textChars\<close> equal to the length of its text, and has \<open>textWords = 0\<close> exactly when its
  text is empty.
\<close>

theorem C9_document_invariant:
  assumes "reachable cfg st" and "documents st k = Some doc"
  shows "doc_textChars doc = length (doc_text doc)
         \<and> (doc_textWords doc = 0) = (doc_text doc = [])"
  using reachable_ok [OF assms(1)] assms(2)
  by (simp add: store_ok_def document_invariant_def)

text \<open>
  The invariant at a document that was created by an upload and rewritten by OCR recovery.
\<close>

theorem C9_document_invariant_witness:
  "reachable ocr_config recovered_state
   \<and> documents recovered_state ''d1'' = Some recovered_doc
   \<and> doc_text recovered_doc = ''Hello world''
   \<and> doc_textChars recovered_doc = length (doc_text recovered_doc)
   \<and> (doc_textWords recovered_doc = 0) = (doc_text recovered_doc = [])"
proof -
  have r: "reachable ocr_config recovered_state"
    unfolding recovered_state_def uploaded_state_def
    by (intro reachable_analyze reachable_upload reachable_initial)
  have d: "documents recovered_state ''d1'' = Some recovered_doc"
    by code_simp
  have t: "doc_text recovered_doc = ''Hello world''"
    by (simp add: recovered_doc_def)
  from r d t C9_document_invariant [OF r d] show ?thesis by blast
qed

section \<open>The Result Normalizer\<close>

lemma trim_Nil: "trim [] = []"
  by (simp add: trim_def)

lemma trim_last_not_ws: "trim s \<noteq> [] \<Longrightarrow> \<not> is_ws (last (trim s))"
proof -
  assume ne: "trim s \<noteq> []"
  let ?u = "dropWhile is_ws (rev (dropWhile is_ws s))"
  from ne have u: "?u \<noteq> []" by (simp add: trim_def)
  then have "\<not> is_ws (hd ?u)" by (rule hd_dropWhile)
  with u show ?thesis by (simp add: trim_def last_rev)
qed

lemma last_dropWhile: "dropWhile P xs \<noteq> [] \<Longrightarrow> last (dropWhile P xs) = last xs"
  by (metis last_appendR takeWhile_dropWhile_id)

lemma trim_hd_not_ws: "trim s \<noteq> [] \<Longrightarrow> \<not> is_ws (hd (trim s))"
proof -
  assume ne: "trim s \<noteq> []"
  let ?d = "dropWhile is_ws s"
  let ?u = "dropWhile is_ws (rev ?d)"
  from ne have u: "?u \<noteq> []" by (simp add: trim_def)
  then have d: "?d \<noteq> []" by (auto simp del: dropWhile_eq_Nil_conv)
  have "hd (trim s) = last ?u" using u by (simp add: trim_def hd_rev)
  also have "\<dots> = last (rev ?d)" using u by (rule last_dropWhile)
  also have "\<dots> = hd ?d" using d by (simp add: last_rev)
  finally show ?thesis using hd_dropWhile [OF d] by simp
qed

lemma trim_trim: "trim (trim s) = trim s"
proof (cases "trim s = []")
  case True
  with trim_Nil show ?thesis by simp
next
  case False
  have a: "dropWhile is_ws (trim s) = trim s"
    using trim_hd_not_ws [OF False] by (simp add: dropWhile_eq_self_iff)
  have "hd (rev (trim s)) = last (trim s)" using False by (simp add: hd_rev)
  then have b: "dropWhile is_ws (rev (trim s)) = rev (trim s)"
    using trim_last_not_ws [OF False] by (simp add: dropWhile_eq_self_iff)
  have "trim (trim s) = rev (dropWhile is_ws (rev (dropWhile is_ws (trim s))))"
    by (simp add: trim_def)
  with a b show ?thesis by simp
qed

lemma slice0_idem: "0 \<le> n \<Longrightarrow> slice0 n (slice0 n xs) = slice0 n xs"
  by (simp add: slice0_def)

lemma nullable_idem:
  "normalizeNullableString (Some (json_of_nullable (normalizeNullableString v)))
   = normalizeNullableString v"
proof (cases "normalizeNullableString v")
  case None
  then show ?thesis by (simp add: json_of_nullable_def normalizeNullableString_def)
next
  case (Some c)
  then obtain s where v: "v = Some (JStr s)" and c: "c = trim s"
    and ok: "\<not> (trim s = [] \<or> toLowerCase (trim s) = ''null''
                 \<or> toLowerCase (trim s) = ''not mentioned'')"
    by (auto simp: normalizeNullableString_def Let_def split: option.splits json.splits if_splits)
  have "normalizeNullableString (Some (JStr (trim s))) = Some (trim s)"
    using ok by (simp add: normalizeNullableString_def Let_def trim_trim)
  with Some c show ?thesis by (simp add: json_of_nullable_def)
qed

lemma trimmed_string_trim: "trim (trimmed_string v) = trimmed_string v"
  by (simp add: trimmed_string_def trim_trim trim_Nil split: option.splits json.splits)

lemma trimmed_strings_fixed:
  assumes "\<forall>s\<in>set xs. trim s = s \<and> s \<noteq> []"
  shows "filter (\<lambda>s. s \<noteq> []) (map (\<lambda>item. trimmed_string (Some item)) (map JStr xs)) = xs"
  using assms by (induction xs) (auto simp: trimmed_string_def)

lemma string_array_idem:
  assumes n: "0 \<le> n"
  shows "normalizeStringArray (Some (JArr (map JStr (normalizeStringArray v n)))) n
         = normalizeStringArray v n"
proof -
  let ?xs = "filter (\<lambda>s. s \<noteq> []) (map (\<lambda>item. trimmed_string (Some item)) (array_or_empty v))"
  have t: "\<forall>s\<in>set ?xs. trim s = s \<and> s \<noteq> []"
    by (auto simp: trimmed_string_trim)
  have "\<forall>s\<in>set (slice0 n ?xs). trim s = s \<and> s \<noteq> []"
    using t n by (auto simp: slice0_def dest: in_set_takeD)
  then have "filter (\<lambda>s. s \<noteq> []) (map (\<lambda>item. trimmed_string (Some item))
               (map JStr (slice0 n ?xs))) = slice0 n ?xs"
    by (rule trimmed_strings_fixed)
  then show ?thesis
    using n by (simp add: normalizeStringArray_def array_or_empty_def slice0_idem)
qed

lemma clean_evidence_json:
  "clean_evidence (json_of_evidence e)
   = \<lparr> ev_quote = trim (ev_quote e), ev_section = trim (ev_section e) \<rparr>"
  by (simp add: clean_evidence_def json_of_evidence_def trimmed_string_def)

lemma clean_evidence_trimmed:
  "trim (ev_quote (clean_evidence item)) = ev_quote (clean_evidence item)
   \<and> trim (ev_section (clean_evidence item)) = ev_section (clean_evidence item)"
  by (simp add: clean_evidence_def trimmed_string_trim)

lemma evidence_fixed:
  assumes "\<forall>e\<in>set es. trim (ev_quote e) = ev_quote e \<and> trim (ev_section e) = ev_section e
                       \<and> 10 < length (ev_quote e)"
  shows "filter (\<lambda>item. 10 < length (ev_quote item))
           (map clean_evidence (map json_of_evidence es)) = es"
  using assms by (induction es) (auto simp: clean_evidence_json)

lemma sentinel_fixed:
  "trim (ev_quote sentinel) = ev_quote sentinel \<and> trim (ev_section sentinel) = ev_section sentinel
   \<and> 10 < length (ev_quote sentinel)"
  by (simp add: sentinel_def trim_def is_ws_def)

lemma normalizeEvidence_props:
  "\<forall>e\<in>set (normalizeEvidence v).
     trim (ev_quote e) = ev_quote e \<and> trim (ev_section e) = ev_section e
     \<and> 10 < length (ev_quote e)"
  using sentinel_fixed clean_evidence_trimmed
  by (auto simp: normalizeEvidence_def Let_def slice0_def dest!: in_set_takeD)

lemma normalizeEvidence_nonempty: "normalizeEvidence v \<noteq> []"
  by (simp add: normalizeEvidence_def Let_def)

lemma normalizeEvidence_length: "length (normalizeEvidence v) \<le> 8"
  by (simp add: normalizeEvidence_def Let_def slice0_def)

lemma evidence_idem:
  "normalizeEvidence (Some (JArr (map json_of_evidence (normalizeEvidence v))))
   = normalizeEvidence v"
proof -
  let ?es = "normalizeEvidence v"
  have f: "filter (\<lambda>item. 10 < length (ev_quote item))
             (map clean_evidence (map json_of_evidence ?es)) = ?es"
    using normalizeEvidence_props by (rule evidence_fixed)
  have "slice0 8 ?es = ?es" using normalizeEvidence_length [of v] by (simp add: slice0_def)
  with f show ?thesis
    using normalizeEvidence_nonempty [of v]
    by (simp add: normalizeEvidence_def [of "Some (JArr (map json_of_evidence ?es))"]
          array_or_empty_def Let_def)
qed

lemma allowed_or_idem:
  "fallback \<in> set allowed \<Longrightarrow>
   allowed_or allowed fallback (Some (JStr (allowed_or allowed fallback v)))
   = allowed_or allowed fallback v"
  by (auto simp: allowed_or_def split: option.splits json.splits)

lemma get_prop_result:
  "get_prop (Some (json_of_result r)) ''tone'' = Some (JStr (r_tone r))"
  "get_prop (Some (json_of_result r)) ''tone_summary'' = Some (json_of_nullable (r_tone_summary r))"
  "get_prop (Some (json_of_result r)) ''confidence'' = Some (JStr (r_confidence r))"
  "get_prop (Some (json_of_result r)) ''key_positives'' = Some (JArr (map JStr (r_key_positives r)))"
  "get_prop (Some (json_of_result r)) ''key_concerns'' = Some (JArr (map JStr (r_key_concerns r)))"
  "get_prop (Some (json_of_result r)) ''capacity_utilization_trends''
   = Some (json_of_nullable (r_capacity_utilization_trends r))"
  "get_prop (Some (json_of_result r)) ''growth_initiatives''
   = Some (JArr (map JStr (r_growth_initiatives r)))"
  "get_prop (Some (json_of_result r)) ''evidence_quotes''
   = Some (JArr (map json_of_evidence (r_evidence_quotes r)))"
  "get_prop (Some (json_of_result r)) ''missing_sections''
   = Some (JArr (map JStr (r_missing_sections r)))"
  "get_prop (get_prop (Some (json_of_result r)) ''forward_guidance'') ''revenue''
   = Some (json_of_nullable (g_revenue (r_forward_guidance r)))"
  "get_prop (get_prop (Some (json_of_result r)) ''forward_guidance'') ''margin''
   = Some (json_of_nullable (g_margin (r_forward_guidance r)))"
  "get_prop (get_prop (Some (json_of_result r)) ''forward_guidance'') ''capex''
   = Some (json_of_nullable (g_capex (r_forward_guidance r)))"
  "get_prop (get_prop (Some (json_of_result r)) ''forward_guidance'') ''tax_rate''
   = Some (json_of_nullable (g_tax_rate (r_forward_guidance r)))"
  by (simp_all add: json_of_result_def)

lemma long_quote_clean: "(10 < length (ev_quote (clean_evidence item))) = has_long_quote item"
  by (simp add: clean_evidence_def has_long_quote_def trimmed_string_def
           split: option.splits json.splits)

text \<open>
  C6, as the code has it. For every input, \<open>evidence_quotes\<close> holds one entry for each entry
  of the input array whose \<open>quote\<close> is a string with more than ten characters after trimming,
  in the order of the input and cut to the first eight; the entry carries the trimmed quote,
  and the trimmed \<open>section\<close> when that is a string and the empty string otherwise, so the
  entry of the input needs no \<open>section\<close> field. When no entry of the input qualifies (also
  when the field is no array), \<open>evidence_quotes\<close> is the one sentinel entry. It is never
  empty and never longer than eight.
\<close>

theorem C6_evidence_quotes:
  "r_evidence_quotes (normalizeResult input) =
     (if filter has_long_quote (array_or_empty (get_prop (Some input) ''evidence_quotes'')) = []
      then [\<lparr> ev_quote = ''No direct quote extracted'', ev_section = ''N/A'' \<rparr>]
      else take 8 (map clean_evidence
             (filter has_long_quote (array_or_empty (get_prop (Some input) ''evidence_quotes'')))))
   \<and> r_evidence_quotes (normalizeResult input) \<noteq> []
   \<and> length (r_evidence_quotes (normalizeResult input)) \<le> 8"
proof -
  let ?xs = "array_or_empty (get_prop (Some input) ''evidence_quotes'')"
  have f: "filter (\<lambda>item. 10 < length (ev_quote item)) (map clean_evidence ?xs)
           = map clean_evidence (filter has_long_quote ?xs)"
    by (simp add: filter_map o_def long_quote_clean)
  have e: "r_evidence_quotes (normalizeResult input)
           = normalizeEvidence (get_prop (Some input) ''evidence_quotes'')"
    by (simp add: normalizeResult_def)
  have "normalizeEvidence (get_prop (Some input) ''evidence_quotes'') =
     (if filter has_long_quote ?xs = [] then [sentinel]
      else take 8 (map clean_evidence (filter has_long_quote ?xs)))"
    unfolding normalizeEvidence_def f by (simp add: Let_def slice0_def)
  with e show ?thesis
    using normalizeEvidence_nonempty [of "get_prop (Some input) ''evidence_quotes''"]
      normalizeEvidence_length [of "get_prop (Some input) ''evidence_quotes''"]
    by (simp add: sentinel_def)
qed

text \<open>
  The claim as it is written fails: an entry with a long quote and no \<open>section\<close> field is
  kept, with the empty string as its section.
\<close>

theorem C6_evidence_quotes_counterexample:
  "get_prop (Some quote_without_section) ''section'' = None
   \<and> r_evidence_quotes (normalizeResult (JObj [(''evidence_quotes'', JArr [quote_without_section])]))
     = [\<lparr> ev_quote = ''Revenue grew 12% year over year'', ev_section = [] \<rparr>]"
  by code_simp

theorem C6_evidence_quotes_witness:
  "r_evidence_quotes (normalizeResult example_response)
     = [\<lparr> ev_quote = ''Revenue grew 12% year over year'', ev_section = [] \<rparr>]
   \<and> r_evidence_quotes (normalizeResult (JObj [(''evidence_quotes'', JArr [])]))
     = [\<lparr> ev_quote = ''No direct quote extracted'', ev_section = ''N/A'' \<rparr>]"
proof -
  have a: "filter has_long_quote (array_or_empty (get_prop (Some example_response) ''evidence_quotes''))
           = [quote_without_section]"
    by code_simp
  have b: "clean_evidence quote_without_section
           = \<lparr> ev_quote = ''Revenue grew 12% year over year'', ev_section = [] \<rparr>"
    by code_simp
  have c: "filter has_long_quote
             (array_or_empty (get_prop (Some (JObj [(''evidence_quotes'', JArr [])])) ''evidence_quotes''))
           = []"
    by code_simp
  from C6_evidence_quotes [of example_response] C6_evidence_quotes [of "JObj [(''evidence_quotes'', JArr [])]"]
  show ?thesis
    unfolding a c by (simp add: b)
qed

text \<open>
  C7. The Result Normalizer is idempotent: a normalized Result, read again as a JSON value,
  normalizes to itself.
\<close>

theorem C7_normalize_idempotent:
  "normalizeResult (json_of_result (normalizeResult v)) = normalizeResult v"
proof -
  have tone: "''neutral'' \<in> set toneAllowed" by (simp add: toneAllowed_def)
  have conf: "''low'' \<in> set confidenceAllowed" by (simp add: confidenceAllowed_def)
  show ?thesis
    unfolding normalizeResult_def [of "json_of_result (normalizeResult v)"] get_prop_result
    by (simp add: normalizeResult_def [of v] nullable_idem string_array_idem evidence_idem
          allowed_or_idem [OF tone] allowed_or_idem [OF conf])
qed

theorem C7_normalize_idempotent_witness:
  "normalizeResult (json_of_result (normalizeResult example_response))
     = normalizeResult example_response
   \<and> r_tone (normalizeResult example_response) = ''optimistic''
   \<and> r_tone_summary (normalizeResult example_response) = None
   \<and> r_confidence (normalizeResult example_response) = ''low''
   \<and> r_key_positives (normalizeResult example_response) = [''Volume growth up 5%'']"
proof -
  have "r_tone (normalizeResult example_response) = ''optimistic''
   \<and> r_tone_summary (normalizeResult example_response) = None
   \<and> r_confidence (normalizeResult example_response) = ''low''
   \<and> r_key_positives (normalizeResult example_response) = [''Volume growth up 5%'']"
    by code_simp
  with C7_normalize_idempotent [of example_response] show ?thesis by simp
qed

section \<open>Multimodal attachments\<close>

lemma build_parts_loop_eq:
  "build_parts_loop cfg rt i docs acc = acc @ concat (map (attachment cfg rt) (enumerate i docs))"
proof (induction docs arbitrary: i acc)
  case Nil
  show ?case by simp
next
  case (Cons d ds)
  show ?case
    by (simp add: Cons.IH attachment_def retrieved_def split: sum.splits option.splits)
qed

text \<open>
  C10. With a cap that is not negative, the candidates for attachment are the first
  \<open>maxMultimodalDocs\<close> PDF-type documents of the selection, in the order of the selection;
  the list is fixed before any retrieval and does not depend on it. The parts built are those
  of the candidates whose bytes are retrieved, are not empty and are within the byte cap, in
  order: a candidate that fails contributes nothing, and no later PDF takes its place. A
  document that is not of PDF type has no influence on the parts at all.
\<close>

theorem C10_attachment_candidates:
  assumes "0 \<le> maxMultimodalDocs cfg"
  shows "pdfDocs cfg selected = take (nat (maxMultimodalDocs cfg)) (filter isPdfDoc selected)
         \<and> buildDocumentParts cfg rt selected =
             concat (map (attachment cfg rt)
               (enumerate 0 (take (nat (maxMultimodalDocs cfg)) (filter isPdfDoc selected))))
         \<and> buildDocumentParts cfg rt selected = buildDocumentParts cfg rt (filter isPdfDoc selected)"
  using assms
  by (simp add: buildDocumentParts_def pdfDocs_def build_parts_loop_eq slice0_def)

text \<open>
  Of four PDFs and a text file, with the default cap of three: the first PDF cannot be
  retrieved, the second and the third PDF are attached, and the fourth is not, although only
  two documents were attached.
\<close>

theorem C10_attachment_candidates_witness:
  "0 \<le> maxMultimodalDocs default_config
   \<and> map doc_name (pdfDocs default_config five_documents) = [''a.pdf'', ''b.PDF'', ''c'']
   \<and> buildDocumentParts default_config example_env five_documents =
       [TextPart ''Source Document: b.PDF'', InlineData ''application/pdf'' ''AAAA'',
        TextPart ''Source Document: c'', InlineData ''application/pdf'' ''AAAAAAAA'']"
proof -
  have c: "0 \<le> maxMultimodalDocs default_config"
    by (simp add: default_config_def)
  have n: "map doc_name (take (nat (maxMultimodalDocs default_config)) (filter isPdfDoc five_documents))
           = [''a.pdf'', ''b.PDF'', ''c'']"
    by code_simp
  have p: "concat (map (attachment default_config example_env)
             (enumerate 0 (take (nat (maxMultimodalDocs default_config))
                (filter isPdfDoc five_documents)))) =
           [TextPart ''Source Document: b.PDF'', InlineData ''application/pdf'' ''AAAA'',
            TextPart ''Source Document: c'', InlineData ''application/pdf'' ''AAAAAAAA'']"
    by code_simp
  from C10_attachment_candidates [OF c, of five_documents example_env] c n p
  show ?thesis by simp
qed

section \<open>The analyze request\<close>

lemma sent_requests:
  "\<forall>req\<in>set (fst (runOptionBAnalysis cfg rt combinedText parts)).
     req_documentParts req = parts
     \<and> p_transcriptText (req_prompt req)
         = (if 10 \<le> length (trim combinedText) then trim combinedText else no_text_placeholder)
     \<and> (10 \<le> length (trim combinedText) \<or> parts \<noteq> [])"
  unfolding runOptionBAnalysis_def
  by (auto simp: Let_def split: sum.splits)

lemma respond_sent: "snd (snd (respond cfg rt st selected outcome)) = fst outcome"
  by (simp add: respond_def split: prod.splits sum.splits)

lemma analyze_selected_eq:
  "select_documents cfg rt st ids = Inr (st1, selected) \<Longrightarrow>
   analyze cfg rt st ids = analyze_selected cfg rt st1 selected"
  by (simp add: analyze_def)

lemma select_documents_runs:
  "select_documents cfg rt st ids = Inr (st1, selected) \<Longrightarrow> analysisRuns st1 = analysisRuns st"
proof -
  have one: "analysisRuns (recover_one cfg rt s i k) = analysisRuns s" for s i k
    by (simp add: recover_one_def Let_def split: option.splits sum.splits)
  have loop: "analysisRuns (recover_loop cfg rt s i ks) = analysisRuns s" for s i ks
    by (induction ks arbitrary: s i) (simp_all add: one)
  assume "select_documents cfg rt st ids = Inr (st1, selected)"
  then show ?thesis
    unfolding select_documents_def recoverWeakPdfDocuments_def
    by (auto simp: Let_def loop split: option.splits json.splits list.splits if_splits)
qed

lemma select_one:
  "documents st k = Some doc \<Longrightarrow> \<not> enableOcrRecoveryOnAnalyze cfg \<Longrightarrow>
   select_documents cfg rt st (Some (JArr [JStr k])) = Inr (st, [doc])"
  by (simp add: select_documents_def deref_def List.map_filter_def)

lemma text_mode:
  assumes sel: "select_documents cfg rt st ids = Inr (st1, selected)"
    and sig: "minAnalysisSignal cfg
              \<le> int (getSignalLength (Some (join ''\<newline>\<newline>'' (map doc_text selected))))"
    and budget: "0 \<le> maxInputChars cfg"
  shows "documentParts cfg rt selected = []"
    and "analysisText cfg selected =
        take (nat (maxInputChars cfg))
          (join ''\<newline>\<newline>---\<newline>\<newline>''
             (map (\<lambda>doc. ''Document: '' @ doc_name doc @ ''\<newline>'' @ doc_text doc) selected))"
    and "analyze cfg rt st ids =
        respond cfg rt st1 selected
          (runOptionBAnalysis cfg rt
             (take (nat (maxInputChars cfg))
                (join ''\<newline>\<newline>---\<newline>\<newline>''
                   (map (\<lambda>doc. ''Document: '' @ doc_name doc @ ''\<newline>'' @ doc_text doc) selected)))
             [])"
proof -
  let ?text = "take (nat (maxInputChars cfg))
          (join ''\<newline>\<newline>---\<newline>\<newline>''
             (map (\<lambda>doc. ''Document: '' @ doc_name doc @ ''\<newline>'' @ doc_text doc) selected))"
  have mm: "\<not> multimodal cfg selected"
    using sig by (simp add: multimodal_def extractedOnly_def)
  then show parts: "documentParts cfg rt selected = []"
    by (simp add: documentParts_def)
  have blocks: "map document_block selected
      = map (\<lambda>doc. ''Document: '' @ doc_name doc @ ''\<newline>'' @ doc_text doc) selected"
    by (simp add: document_block_def)
  show tx: "analysisText cfg selected = ?text"
    using mm budget
    by (simp add: analysisText_def combined_def slice0_def block_separator_def blocks)
  show "analyze cfg rt st ids =
      respond cfg rt st1 selected (runOptionBAnalysis cfg rt ?text [])"
    using mm by (simp add: analyze_selected_eq [OF sel] analyze_selected_def parts tx)
qed

lemma first_request:
  assumes "apiKey cfg \<noteq> None" "apiKey cfg \<noteq> Some []"
    and "10 \<le> length (trim combinedText) \<or> parts \<noteq> []"
  shows "fst (runOptionBAnalysis cfg rt combinedText parts)
         = [\<lparr> req_prompt =
                \<lparr> p_transcriptText = (if 10 \<le> length (trim combinedText) then trim combinedText
                                        else no_text_placeholder),
                  p_lowSignal = (length (trim combinedText) < 400),
                  p_hasAttachedDocs = (parts \<noteq> []), p_retry = False \<rparr>,
              req_documentParts = parts \<rparr>]
       \<or> fst (runOptionBAnalysis cfg rt combinedText parts)
         = [\<lparr> req_prompt =
                \<lparr> p_transcriptText = (if 10 \<le> length (trim combinedText) then trim combinedText
                                        else no_text_placeholder),
                  p_lowSignal = (length (trim combinedText) < 400),
                  p_hasAttachedDocs = (parts \<noteq> []), p_retry = False \<rparr>,
              req_documentParts = parts \<rparr>,
            \<lparr> req_prompt =
                \<lparr> p_transcriptText = (if 10 \<le> length (trim combinedText) then trim combinedText
                                        else no_text_placeholder),
                  p_lowSignal = (length (trim combinedText) < 400),
                  p_hasAttachedDocs = (parts \<noteq> []), p_retry = True \<rparr>,
              req_documentParts = parts \<rparr>]"
  using assms unfolding runOptionBAnalysis_def
  by (auto simp: Let_def split: sum.splits)

lemma single_request:
  assumes "apiKey cfg \<noteq> None" "apiKey cfg \<noteq> Some []"
    and "10 \<le> length (trim combinedText) \<or> parts \<noteq> []"
    and "\<not> retryUnderfilled cfg"
  shows "fst (runOptionBAnalysis cfg rt combinedText parts)
         = [\<lparr> req_prompt =
                \<lparr> p_transcriptText = (if 10 \<le> length (trim combinedText) then trim combinedText
                                        else no_text_placeholder),
                  p_lowSignal = (length (trim combinedText) < 400),
                  p_hasAttachedDocs = (parts \<noteq> []), p_retry = False \<rparr>,
              req_documentParts = parts \<rparr>]"
  using assms unfolding runOptionBAnalysis_def
  by (auto simp: Let_def split: sum.splits)

lemma no_request:
  assumes "apiKey cfg = None \<or> apiKey cfg = Some [] \<or> (length (trim combinedText) < 10 \<and> parts = [])"
  shows "fst (runOptionBAnalysis cfg rt combinedText parts) = []"
  using assms unfolding runOptionBAnalysis_def
  by (auto simp: Let_def split: sum.splits)


lemma select_two:
  "documents st k = Some doc \<Longrightarrow> documents st k' = Some doc' \<Longrightarrow>
   \<not> enableOcrRecoveryOnAnalyze cfg \<Longrightarrow>
   select_documents cfg rt st (Some (JArr [JStr k, JStr k'])) = Inr (st, [doc, doc'])"
  by (simp add: select_documents_def deref_def List.map_filter_def)

lemma blank_documents:
  "documents blank_state ''r1'' = Some report_doc" "documents blank_state ''b1'' = Some blank_doc"
  by code_simp+

lemma blank_blocks:
  "take (nat (maxInputChars default_config))
     (join ''\<newline>\<newline>---\<newline>\<newline>''
        (map (\<lambda>doc. ''Document: '' @ doc_name doc @ ''\<newline>'' @ doc_text doc) [report_doc, blank_doc]))
   = ''Document: report.txt\<newline>Revenue grew 12% year over year and margins expanded by 150 bps.\<newline>\<newline>---\<newline>\<newline>Document: blank.txt\<newline>''"
proof -
  have j: "join ''\<newline>\<newline>---\<newline>\<newline>''
        (map (\<lambda>doc. ''Document: '' @ doc_name doc @ ''\<newline>'' @ doc_text doc) [report_doc, blank_doc])
   = ''Document: report.txt\<newline>Revenue grew 12% year over year and margins expanded by 150 bps.\<newline>\<newline>---\<newline>\<newline>Document: blank.txt\<newline>''"
    by code_simp
  show ?thesis unfolding j by (simp add: default_config_def)
qed

lemma report_documents: "documents report_state ''r1'' = Some report_doc"
  by code_simp

lemma report_blocks:
  "blocks_text default_config [report_doc]
   = ''Document: report.txt\<newline>Revenue grew 12% year over year and margins expanded by 150 bps.''"
proof -
  have j: "join ''\<newline>\<newline>---\<newline>\<newline>''
             (map (\<lambda>doc. ''Document: '' @ doc_name doc @ ''\<newline>'' @ doc_text doc) [report_doc])
     = ''Document: report.txt\<newline>Revenue grew 12% year over year and margins expanded by 150 bps.''"
    by code_simp
  show ?thesis unfolding blocks_text_def j by (simp add: default_config_def)
qed

lemma report_trim:
  "trim ''Document: report.txt\<newline>Revenue grew 12% year over year and margins expanded by 150 bps.''
   = ''Document: report.txt\<newline>Revenue grew 12% year over year and margins expanded by 150 bps.''"
  by code_simp

text \<open>
  C1, as the code has it. Take an analyze request that selects documents (after the validation,
  the resolution of the identifiers and OCR recovery), and let the signal length of their texts
  joined by blank lines (by \<open>combined_signal\<close>, the sum of their signal lengths) be at least
  the analysis threshold. Then no document parts are built; the text handed to the analyzer is
  the blocks \<open>Document: <name>\<close>, line feed, \<open><text>\<close> of the selected documents in
  order, joined by the separator and cut to the character budget; and the analyzer is called
  with this text and no parts. The analyzer trims the text. Every request that reaches the
  model carries no parts and, as transcript, the trimmed text. With an API key and at least
  ten characters of trimmed text the request with the trimmed text is sent: once, or once more
  as a retry, and once only when the retry of underfilled results is switched off. Without an
  API key, or with fewer than ten characters of trimmed text, no request is sent.
\<close>

theorem C1_text_mode:
  assumes sel: "select_documents cfg rt st ids = Inr (st1, selected)"
    and sig: "minAnalysisSignal cfg
              \<le> int (getSignalLength (Some (join ''\<newline>\<newline>'' (map doc_text selected))))"
    and budget: "0 \<le> maxInputChars cfg"
  shows "documentParts cfg rt selected = []
    \<and> analysisText cfg selected = blocks_text cfg selected
    \<and> analyze cfg rt st ids =
        respond cfg rt st1 selected (runOptionBAnalysis cfg rt (blocks_text cfg selected) [])
    \<and> (\<forall>req\<in>set (snd (snd (analyze cfg rt st ids))).
          req_documentParts req = []
          \<and> p_transcriptText (req_prompt req) = trim (blocks_text cfg selected))
    \<and> (apiKey cfg \<noteq> None \<longrightarrow> apiKey cfg \<noteq> Some [] \<longrightarrow>
        10 \<le> length (trim (blocks_text cfg selected)) \<longrightarrow>
          (snd (snd (analyze cfg rt st ids)) = [text_request (trim (blocks_text cfg selected)) False]
           \<or> snd (snd (analyze cfg rt st ids))
               = [text_request (trim (blocks_text cfg selected)) False,
                  text_request (trim (blocks_text cfg selected)) True])
          \<and> (\<not> retryUnderfilled cfg \<longrightarrow>
               snd (snd (analyze cfg rt st ids))
               = [text_request (trim (blocks_text cfg selected)) False]))
    \<and> (apiKey cfg = None \<or> apiKey cfg = Some []
         \<or> length (trim (blocks_text cfg selected)) < 10 \<longrightarrow>
        snd (snd (analyze cfg rt st ids)) = [])"
proof -
  let ?text = "blocks_text cfg selected"
  note tm = text_mode [OF sel sig budget, folded blocks_text_def]
  have sent: "snd (snd (analyze cfg rt st ids)) = fst (runOptionBAnalysis cfg rt ?text [])"
    unfolding tm(3) by (rule respond_sent)
  have all: "\<forall>req\<in>set (snd (snd (analyze cfg rt st ids))).
          req_documentParts req = [] \<and> p_transcriptText (req_prompt req) = trim ?text"
    unfolding sent using sent_requests [of cfg rt ?text "[]"] by auto
  have some: "snd (snd (analyze cfg rt st ids)) = [text_request (trim ?text) False]
           \<or> snd (snd (analyze cfg rt st ids))
               = [text_request (trim ?text) False, text_request (trim ?text) True]"
    if "apiKey cfg \<noteq> None" "apiKey cfg \<noteq> Some []" "10 \<le> length (trim ?text)"
    unfolding sent text_request_def using first_request [of cfg ?text "[]" rt] that by simp
  have one: "snd (snd (analyze cfg rt st ids)) = [text_request (trim ?text) False]"
    if "apiKey cfg \<noteq> None" "apiKey cfg \<noteq> Some []" "10 \<le> length (trim ?text)"
      "\<not> retryUnderfilled cfg"
    unfolding sent text_request_def using single_request [of cfg ?text "[]" rt] that by simp
  have none: "snd (snd (analyze cfg rt st ids)) = []"
    if "apiKey cfg = None \<or> apiKey cfg = Some [] \<or> length (trim ?text) < 10"
    unfolding sent using no_request [of cfg ?text "[]" rt] that by simp
  show ?thesis
    using tm all some one none by (intro conjI impI) blast+
qed

text \<open>
  The claim as it is written fails: the text sent is the trimmed text. When the last selected
  document has no text, the blocks end with a line feed, which the transcript sent to the
  model does not have.
\<close>

theorem C1_text_mode_counterexample:
  "documents blank_state ''r1'' = Some report_doc
   \<and> documents blank_state ''b1'' = Some blank_doc
   \<and> getSignalLength (Some (join ''\<newline>\<newline>'' (map doc_text [report_doc, blank_doc]))) = 53
   \<and> minAnalysisSignal default_config = 40
   \<and> take (nat (maxInputChars default_config))
         (join ''\<newline>\<newline>---\<newline>\<newline>''
            (map (\<lambda>doc. ''Document: '' @ doc_name doc @ ''\<newline>'' @ doc_text doc)
               [report_doc, blank_doc]))
       = ''Document: report.txt\<newline>Revenue grew 12% year over year and margins expanded by 150 bps.\<newline>\<newline>---\<newline>\<newline>Document: blank.txt\<newline>''
   \<and> snd (snd (analyze default_config example_env blank_state
                   (Some (JArr [JStr ''r1'', JStr ''b1'']))))
       = [\<lparr> req_prompt =
              \<lparr> p_transcriptText = ''Document: report.txt\<newline>Revenue grew 12% year over year and margins expanded by 150 bps.\<newline>\<newline>---\<newline>\<newline>Document: blank.txt'',
                p_lowSignal = True, p_hasAttachedDocs = False, p_retry = False \<rparr>,
            req_documentParts = [] \<rparr>]
   \<and> map (\<lambda>req. p_transcriptText (req_prompt req))
         (snd (snd (analyze default_config example_env blank_state
                      (Some (JArr [JStr ''r1'', JStr ''b1''])))))
       \<noteq> [take (nat (maxInputChars default_config))
            (join ''\<newline>\<newline>---\<newline>\<newline>''
               (map (\<lambda>doc. ''Document: '' @ doc_name doc @ ''\<newline>'' @ doc_text doc)
                  [report_doc, blank_doc]))]"
proof -
  have sel: "select_documents default_config example_env blank_state
               (Some (JArr [JStr ''r1'', JStr ''b1''])) = Inr (blank_state, [report_doc, blank_doc])"
    using blank_documents by (rule select_two) (simp add: default_config_def)
  have s: "getSignalLength (Some (join ''\<newline>\<newline>'' (map doc_text [report_doc, blank_doc]))) = 53"
    by code_simp
  have sig: "minAnalysisSignal default_config
      \<le> int (getSignalLength (Some (join ''\<newline>\<newline>'' (map doc_text [report_doc, blank_doc]))))"
    unfolding s by (simp add: default_config_def)
  have budget: "0 \<le> maxInputChars default_config" by (simp add: default_config_def)
  have r: "fst (runOptionBAnalysis default_config example_env
      ''Document: report.txt\<newline>Revenue grew 12% year over year and margins expanded by 150 bps.\<newline>\<newline>---\<newline>\<newline>Document: blank.txt\<newline>'' [])
       = [\<lparr> req_prompt =
              \<lparr> p_transcriptText = ''Document: report.txt\<newline>Revenue grew 12% year over year and margins expanded by 150 bps.\<newline>\<newline>---\<newline>\<newline>Document: blank.txt'',
                p_lowSignal = True, p_hasAttachedDocs = False, p_retry = False \<rparr>,
            req_documentParts = [] \<rparr>]"
    by code_simp
  have "snd (snd (analyze default_config example_env blank_state
                   (Some (JArr [JStr ''r1'', JStr ''b1'']))))
      = fst (runOptionBAnalysis default_config example_env
      ''Document: report.txt\<newline>Revenue grew 12% year over year and margins expanded by 150 bps.\<newline>\<newline>---\<newline>\<newline>Document: blank.txt\<newline>'' [])"
    unfolding text_mode(3) [OF sel sig budget] blank_blocks by (rule respond_sent)
  then have sent: "snd (snd (analyze default_config example_env blank_state
                   (Some (JArr [JStr ''r1'', JStr ''b1'']))))
       = [\<lparr> req_prompt =
              \<lparr> p_transcriptText = ''Document: report.txt\<newline>Revenue grew 12% year over year and margins expanded by 150 bps.\<newline>\<newline>---\<newline>\<newline>Document: blank.txt'',
                p_lowSignal = True, p_hasAttachedDocs = False, p_retry = False \<rparr>,
            req_documentParts = [] \<rparr>]"
    using r by simp
  have m: "minAnalysisSignal default_config = 40" by (simp add: default_config_def)
  show ?thesis
    unfolding sent blank_blocks using s m blank_documents by simp
qed


text \<open>
  The report alone, selected in the default configuration: its block is sent as it is, in one
  request without parts.
\<close>

theorem C1_text_mode_witness:
  "select_documents default_config example_env report_state (Some (JArr [JStr ''r1'']))
     = Inr (report_state, [report_doc])
   \<and> 40 \<le> getSignalLength (Some (doc_text report_doc))
   \<and> documentParts default_config example_env [report_doc] = []
   \<and> analysisText default_config [report_doc]
       = ''Document: report.txt\<newline>Revenue grew 12% year over year and margins expanded by 150 bps.''
   \<and> snd (snd (analyze default_config example_env report_state (Some (JArr [JStr ''r1'']))))
       = [\<lparr> req_prompt =
              \<lparr> p_transcriptText = ''Document: report.txt\<newline>Revenue grew 12% year over year and margins expanded by 150 bps.'',
                p_lowSignal = True, p_hasAttachedDocs = False, p_retry = False \<rparr>,
            req_documentParts = [] \<rparr>]"
proof -
  have sel: "select_documents default_config example_env report_state (Some (JArr [JStr ''r1'']))
     = Inr (report_state, [report_doc])"
    using report_documents by (rule select_one) (simp add: default_config_def)
  have s: "getSignalLength (Some (doc_text report_doc)) = 53" by code_simp
  have sig: "minAnalysisSignal default_config
              \<le> int (getSignalLength (Some (join ''\<newline>\<newline>'' (map doc_text [report_doc]))))"
    using s by (simp add: default_config_def)
  have budget: "0 \<le> maxInputChars default_config" by (simp add: default_config_def)
  have k: "apiKey default_config \<noteq> None" "apiKey default_config \<noteq> Some []"
    "\<not> retryUnderfilled default_config"
    by (simp_all add: default_config_def)
  note c = C1_text_mode [OF sel sig budget, unfolded report_blocks report_trim]
  have len: "10 \<le> length ''Document: report.txt\<newline>Revenue grew 12% year over year and margins expanded by 150 bps.''"
    by simp
  from c have "documentParts default_config example_env [report_doc] = []"
    and "analysisText default_config [report_doc]
       = ''Document: report.txt\<newline>Revenue grew 12% year over year and margins expanded by 150 bps.''"
    by blast+
  moreover from c k len
  have "snd (snd (analyze default_config example_env report_state (Some (JArr [JStr ''r1'']))))
       = [text_request ''Document: report.txt\<newline>Revenue grew 12% year over year and margins expanded by 150 bps.'' False]"
    by blast
  ultimately show ?thesis
    using sel s by (simp add: text_request_def)
qed

text \<open>
  C2, as the code has it. In multimodal mode (the signal length of the selected texts joined
  by blank lines is below the analysis threshold) the string handed to the analyzer is these
  texts joined by blank lines, without the \<open>Document: <name>\<close> headers; it is not free of
  the extracted text. When parts could be built the analyzer is called with this string and
  the parts, and every request that reaches the model carries the parts and, as transcript,
  the trimmed string when that has at least ten characters, and the fixed placeholder, which
  holds no extracted text, only when it has fewer.
\<close>

theorem C2_multimodal_text:
  assumes sel: "select_documents cfg rt st ids = Inr (st1, selected)"
    and sig: "int (getSignalLength (Some (join ''\<newline>\<newline>'' (map doc_text selected))))
              < minAnalysisSignal cfg"
  shows "analysisText cfg selected = join ''\<newline>\<newline>'' (map doc_text selected)
    \<and> documentParts cfg rt selected = buildDocumentParts cfg rt selected
    \<and> (buildDocumentParts cfg rt selected \<noteq> [] \<longrightarrow>
         analyze cfg rt st ids =
           respond cfg rt st1 selected
             (runOptionBAnalysis cfg rt (join ''\<newline>\<newline>'' (map doc_text selected))
                (buildDocumentParts cfg rt selected)))
    \<and> (\<forall>req\<in>set (snd (snd (analyze cfg rt st ids))).
          req_documentParts req = buildDocumentParts cfg rt selected
          \<and> req_documentParts req \<noteq> []
          \<and> p_transcriptText (req_prompt req) =
              (if 10 \<le> length (trim (join ''\<newline>\<newline>'' (map doc_text selected)))
               then trim (join ''\<newline>\<newline>'' (map doc_text selected))
               else ''No reliable extracted transcript text is available. Analyze the attached source document files directly.''))"
proof -
  let ?text = "join ''\<newline>\<newline>'' (map doc_text selected)"
  let ?parts = "buildDocumentParts cfg rt selected"
  have mm: "multimodal cfg selected"
    using sig by (simp add: multimodal_def extractedOnly_def)
  then have parts: "documentParts cfg rt selected = ?parts"
    by (simp add: documentParts_def)
  have tx: "analysisText cfg selected = ?text"
    using mm by (simp add: analysisText_def extractedOnly_def)
  have an: "?parts \<noteq> [] \<Longrightarrow> analyze cfg rt st ids =
      respond cfg rt st1 selected (runOptionBAnalysis cfg rt ?text ?parts)"
    by (simp add: analyze_selected_eq [OF sel] analyze_selected_def parts tx)
  have reqs: "\<forall>req\<in>set (snd (snd (analyze cfg rt st ids))).
          req_documentParts req = ?parts \<and> req_documentParts req \<noteq> []
          \<and> p_transcriptText (req_prompt req) =
              (if 10 \<le> length (trim ?text) then trim ?text else no_text_placeholder)"
  proof (cases "?parts = []")
    case True
    then show ?thesis
      using mm by (simp add: analyze_selected_eq [OF sel] analyze_selected_def parts)
  next
    case False
    then show ?thesis
      unfolding an [OF False] respond_sent using sent_requests [of cfg rt ?text ?parts] by auto
  qed
  show ?thesis
    using parts tx an reqs unfolding no_text_placeholder_def by blast
qed

text \<open>
  The claim as it is written fails: a scan whose recovered text is \<open>Hello world\<close> is analysed
  in multimodal mode, and the string handed to the analyzer and the transcript of the request
  sent to the model are that extracted text.
\<close>

theorem C2_multimodal_text_counterexample:
  "multimodal default_config [recovered_doc]
   \<and> doc_text recovered_doc = ''Hello world''
   \<and> analysisText default_config [recovered_doc] = ''Hello world''
   \<and> map (\<lambda>req. p_transcriptText (req_prompt req))
        (snd (snd (analyze default_config example_env recovered_state (Some (JArr [JStr ''d1''])))))
       = [''Hello world'']"
  by code_simp

theorem C2_multimodal_text_witness:
  "select_documents default_config example_env recovered_state (Some (JArr [JStr ''d1'']))
     = Inr (recovered_state, [recovered_doc])
   \<and> getSignalLength (Some (doc_text recovered_doc)) = 10
   \<and> analysisText default_config [recovered_doc] = ''Hello world''
   \<and> buildDocumentParts default_config example_env [recovered_doc]
       = [TextPart ''Source Document: scan.pdf'', InlineData ''application/pdf'' ''AAAA'']
   \<and> analyze default_config example_env recovered_state (Some (JArr [JStr ''d1'']))
       = respond default_config example_env recovered_state [recovered_doc]
           (runOptionBAnalysis default_config example_env ''Hello world''
              [TextPart ''Source Document: scan.pdf'', InlineData ''application/pdf'' ''AAAA''])"
proof -
  have d: "documents recovered_state ''d1'' = Some recovered_doc" by code_simp
  have sel: "select_documents default_config example_env recovered_state (Some (JArr [JStr ''d1'']))
     = Inr (recovered_state, [recovered_doc])"
    using d by (rule select_one) (simp add: default_config_def)
  have s: "getSignalLength (Some (doc_text recovered_doc)) = 10" by code_simp
  have sig: "int (getSignalLength (Some (join ''\<newline>\<newline>'' (map doc_text [recovered_doc]))))
              < minAnalysisSignal default_config"
    using s by (simp add: default_config_def)
  have t: "join ''\<newline>\<newline>'' (map doc_text [recovered_doc]) = ''Hello world''"
    by (simp add: recovered_doc_def)
  have p: "buildDocumentParts default_config example_env [recovered_doc]
       = [TextPart ''Source Document: scan.pdf'', InlineData ''application/pdf'' ''AAAA'']"
    by code_simp
  from C2_multimodal_text [OF sel sig] sel s t p show ?thesis by simp
qed

text \<open>
  C3. Take an analyze request that selects documents, let the signal length of their texts
  joined by blank lines be below the analysis threshold, and let no document part be built.
  Then the response is the status 400 with the message of insufficient content and a list of
  details that has, for each selected document in order, one entry with the identifier, the
  name, the character count and the first 120 characters of the text of that document; no
  request is sent to the model, and the Run Store is as it was before the request.
\<close>

theorem C3_insufficient_content:
  assumes sel: "select_documents cfg rt st ids = Inr (st1, selected)"
    and sig: "int (getSignalLength (Some (join ''\<newline>\<newline>'' (map doc_text selected))))
              < minAnalysisSignal cfg"
    and none: "buildDocumentParts cfg rt selected = []"
  shows "analyze cfg rt st ids =
           (st1,
            Response 400
              (InsufficientBody insufficient_message
                 (map (\<lambda>doc. \<lparr> det_id = doc_id doc, det_name = doc_name doc,
                                det_textChars = doc_textChars doc,
                                det_textPreview = take 120 (doc_text doc) \<rparr>) selected)),
            [])
         \<and> analysisRuns (fst (analyze cfg rt st ids)) = analysisRuns st"
proof -
  have mm: "multimodal cfg selected"
    using sig by (simp add: multimodal_def extractedOnly_def)
  have d: "map detail_of selected = map (\<lambda>doc. \<lparr> det_id = doc_id doc, det_name = doc_name doc,
                                det_textChars = doc_textChars doc,
                                det_textPreview = take 120 (doc_text doc) \<rparr>) selected"
    by (simp add: detail_of_def slice0_def)
  show ?thesis
    using mm none select_documents_runs [OF sel]
    by (simp add: analyze_selected_eq [OF sel] analyze_selected_def documentParts_def d)
qed

theorem C3_insufficient_content_witness:
  "select_documents default_config example_env note_state (Some (JArr [JStr ''n1'']))
     = Inr (note_state, [note_doc])
   \<and> getSignalLength (Some (doc_text note_doc)) = 9
   \<and> buildDocumentParts default_config example_env [note_doc] = []
   \<and> analyze default_config example_env note_state (Some (JArr [JStr ''n1''])) =
       (note_state,
        Response 400
          (InsufficientBody insufficient_message
             [\<lparr> det_id = ''n1'', det_name = ''note.txt'', det_textChars = 10,
                det_textPreview = ''short note'' \<rparr>]),
        [])
   \<and> analysisRuns (fst (analyze default_config example_env note_state (Some (JArr [JStr ''n1'']))))
       = analysisRuns note_state"
proof -
  have d: "documents note_state ''n1'' = Some note_doc" by code_simp
  have sel: "select_documents default_config example_env note_state (Some (JArr [JStr ''n1'']))
     = Inr (note_state, [note_doc])"
    using d by (rule select_one) (simp add: default_config_def)
  have s: "getSignalLength (Some (doc_text note_doc)) = 9" by code_simp
  have sig: "int (getSignalLength (Some (join ''\<newline>\<newline>'' (map doc_text [note_doc]))))
              < minAnalysisSignal default_config"
    using s by (simp add: default_config_def)
  have none: "buildDocumentParts default_config example_env [note_doc] = []" by code_simp
  from C3_insufficient_content [OF sel sig none] sel s none show ?thesis
    by (simp add: note_doc_def)
qed

section \<open>The JSON Recovery Parser\<close>


lemma dropWhile_hd_id: "xs \<noteq> [] \<Longrightarrow> \<not> P (hd xs) \<Longrightarrow> dropWhile P (xs @ ys) = xs @ ys"
  by (cases xs) auto

lemma dropWhile_all: "\<forall>x\<in>set xs. P x \<Longrightarrow> dropWhile P (xs @ ys) = dropWhile P ys"
  by (induction xs) auto

lemma dropWhile_neq: "c \<notin> set xs \<Longrightarrow> dropWhile (\<lambda>x. x \<noteq> c) (xs @ c # ys) = c # ys"
  by (induction xs) auto

lemma dropWhile_neq_Nil: "c \<notin> set xs \<Longrightarrow> dropWhile (\<lambda>x. x \<noteq> c) xs = []"
  by (induction xs) auto

lemma trim_around:
  assumes "\<forall>c\<in>set lead. is_ws c" and "\<forall>c\<in>set trail. is_ws c"
    and "core \<noteq> []" and "\<not> is_ws (hd core)" and "\<not> is_ws (last core)"
  shows "trim (lead @ core @ trail) = core"
proof -
  have a: "dropWhile is_ws (lead @ core @ trail) = core @ trail"
    using assms by (simp add: dropWhile_all dropWhile_hd_id)
  have "rev core \<noteq> []" "\<not> is_ws (hd (rev core))"
    using assms by (simp_all add: hd_rev)
  then have b: "dropWhile is_ws (rev core @ []) = rev core"
    using dropWhile_hd_id [of "rev core" is_ws "[]"] by simp
  have "dropWhile is_ws (rev (core @ trail)) = rev core"
    using assms(2) b dropWhile_all [of "rev trail" is_ws "rev core"] by simp
  with a show ?thesis by (simp add: trim_def)
qed

lemma brace_match_Some:
  assumes "CHR ''{'' \<notin> set pre" and "CHR ''}'' \<notin> set post"
  shows "brace_match (pre @ CHR ''{'' # mid @ CHR ''}'' # post) = Some (CHR ''{'' # mid @ [CHR ''}''])"
proof -
  have a: "dropWhile (\<lambda>c. c \<noteq> CHR ''{'') (pre @ CHR ''{'' # mid @ CHR ''}'' # post)
           = CHR ''{'' # mid @ CHR ''}'' # post"
    using assms(1) by (rule dropWhile_neq)
  have b: "dropWhile (\<lambda>c. c \<noteq> CHR ''}'') (rev post @ CHR ''}'' # rev mid) = CHR ''}'' # rev mid"
    using assms(2) dropWhile_neq [of "CHR ''}''" "rev post" "rev mid"] by simp
  show ?thesis unfolding brace_match_def a by (simp add: b)
qed

lemma brace_match_None:
  assumes "\<not> (\<exists>pre mid post. s = pre @ CHR ''{'' # mid @ CHR ''}'' # post)"
  shows "brace_match s = None"
proof (cases "dropWhile (\<lambda>c. c \<noteq> CHR ''{'') s")
  case Nil
  show ?thesis unfolding brace_match_def Nil by simp
next
  case (Cons b t)
  then have b: "b = CHR ''{''" using hd_dropWhile [of "\<lambda>c. c \<noteq> CHR ''{''" s] by auto
  have s: "s = takeWhile (\<lambda>c. c \<noteq> CHR ''{'') s @ CHR ''{'' # t"
    using Cons b takeWhile_dropWhile_id [of "\<lambda>c. c \<noteq> CHR ''{''" s] by simp
  have "CHR ''}'' \<notin> set t"
  proof
    assume "CHR ''}'' \<in> set t"
    then obtain m p where "t = m @ CHR ''}'' # p" by (auto simp: in_set_conv_decomp)
    with s assms show False by blast
  qed
  then have e: "dropWhile (\<lambda>c. c \<noteq> CHR ''}'') (rev t) = []"
    using dropWhile_neq_Nil [of "CHR ''}''" "rev t"] by simp
  show ?thesis
    by (simp add: brace_match_def Cons e del: dropWhile_eq_Nil_conv)
qed

lemma ws_not_j: "is_ws c \<Longrightarrow> toLowerChar c \<noteq> CHR ''j''"
  by (auto simp: is_ws_def toLowerChar_def upper_chars_def lower_chars_def)

lemma brace_not_j: "toLowerChar (CHR ''{'') \<noteq> CHR ''j''"
  by (simp add: toLowerChar_def upper_chars_def lower_chars_def)



lemma not_json_head:
  assumes "r \<noteq> []" and "toLowerChar (hd r) \<noteq> CHR ''j''"
  shows "toLowerCase (take 4 r) \<noteq> ''json''"
  using assms by (cases r) (auto simp: toLowerCase_def)

lemma strip_leading_fenced:
  assumes tag: "tag = [] \<or> toLowerCase tag = ''json''"
    and ws: "\<forall>c\<in>set ws1. is_ws c"
  shows "strip_leading_fence (fence @ tag @ ws1 @ CHR ''{'' # rest) = CHR ''{'' # rest"
proof -
  have p: "prefix fence (fence @ tag @ ws1 @ CHR ''{'' # rest)" by simp
  have d: "drop 3 (fence @ tag @ ws1 @ CHR ''{'' # rest) = tag @ ws1 @ CHR ''{'' # rest"
    by (simp add: fence_def)
  have w: "dropWhile is_ws (ws1 @ CHR ''{'' # rest) = CHR ''{'' # rest"
    using ws by (simp add: dropWhile_all is_ws_def)
  from tag show ?thesis
  proof
    assume t: "tag = []"
    have "toLowerChar (hd (ws1 @ CHR ''{'' # rest)) \<noteq> CHR ''j''"
      using ws by (cases ws1) (auto simp: ws_not_j brace_not_j)
    then have "toLowerCase (take 4 (ws1 @ CHR ''{'' # rest)) \<noteq> ''json''"
      by (intro not_json_head) simp_all
    then show ?thesis
      unfolding strip_leading_fence_def using p d w t by (simp add: Let_def)
  next
    assume t: "toLowerCase tag = ''json''"
    then have "length tag = 4" by (auto simp: toLowerCase_def dest: arg_cong [where f = length])
    then have "take 4 (tag @ ws1 @ CHR ''{'' # rest) = tag"
      "drop 4 (tag @ ws1 @ CHR ''{'' # rest) = ws1 @ CHR ''{'' # rest" by simp_all
    then show ?thesis
      unfolding strip_leading_fence_def using p d w t by (simp add: Let_def)
  qed
qed

lemma strip_trailing_fenced:
  assumes ws: "\<forall>c\<in>set ws2. is_ws c"
  shows "strip_trailing_fence (inner @ CHR ''}'' # ws2 @ fence) = inner @ [CHR ''}'']"
proof -
  have p: "suffix fence (inner @ CHR ''}'' # ws2 @ fence)"
    by (simp add: suffix_def)
  have "rev (inner @ CHR ''}'' # ws2 @ fence) = rev fence @ rev ws2 @ CHR ''}'' # rev inner"
    by simp
  then have d: "drop 3 (rev (inner @ CHR ''}'' # ws2 @ fence)) = rev ws2 @ CHR ''}'' # rev inner"
    by (simp add: fence_def)
  have w: "dropWhile is_ws (rev ws2 @ CHR ''}'' # rev inner) = CHR ''}'' # rev inner"
    using ws by (simp add: dropWhile_all is_ws_def)
  show ?thesis
    unfolding strip_trailing_fence_def using p by (simp only: d w if_True) simp
qed

lemma no_fence: "\<not> prefix fence t \<Longrightarrow> \<not> suffix fence t \<Longrightarrow>
   strip_trailing_fence (strip_leading_fence t) = t"
  by (simp add: strip_trailing_fence_def strip_leading_fence_def)

lemma fenced_block:
  assumes ws: "\<forall>c\<in>set (lead @ ws1 @ ws2 @ trail). is_ws c"
    and tag: "tag = [] \<or> toLowerCase tag = ''json''"
  shows "without_fences (Some (lead @ fence @ tag @ ws1 @ CHR ''{'' # mid @ CHR ''}'' # ws2 @ fence @ trail))
         = CHR ''{'' # mid @ [CHR ''}'']"
proof -
  let ?core = "fence @ tag @ ws1 @ CHR ''{'' # mid @ CHR ''}'' # ws2 @ fence"
  have "trim (lead @ ?core @ trail) = ?core"
    using ws by (intro trim_around) (simp_all add: fence_def is_ws_def)
  then have t: "trim (or_empty (Some (lead @ fence @ tag @ ws1 @ CHR ''{'' # mid @ CHR ''}'' # ws2 @ fence @ trail))) = ?core"
    by (simp add: or_empty_def)
  have l: "strip_leading_fence ?core = CHR ''{'' # mid @ CHR ''}'' # ws2 @ fence"
    using tag ws by (intro strip_leading_fenced) simp_all
  have r: "strip_trailing_fence ((CHR ''{'' # mid) @ CHR ''}'' # ws2 @ fence) = (CHR ''{'' # mid) @ [CHR ''}'']"
    using ws by (intro strip_trailing_fenced) simp
  show ?thesis unfolding without_fences_def t l using r by simp
qed

lemma parse_eq:
  "parseJsonSafely rt raw =
     (if trim (or_empty raw) = [] then Inl (Error ''Model returned empty output'')
      else (case JSON_parse rt (without_fences raw) of
              Inr v \<Rightarrow> Inr v
            | Inl m \<Rightarrow>
                (case brace_match (without_fences raw) of
                   None \<Rightarrow> Inl (Error ''LLM output was not valid JSON'')
                 | Some braces \<Rightarrow>
                     (case JSON_parse rt braces of
                        Inr v \<Rightarrow> Inr v
                      | Inl m' \<Rightarrow> Inl (SyntaxError m')))))"
  unfolding parseJsonSafely_def without_fences_def Let_def ..




lemma without_fences_blank: "trim (or_empty raw) = [] \<Longrightarrow> without_fences raw = []"
  by (simp add: without_fences_def strip_leading_fence_def strip_trailing_fence_def fence_def)

text \<open>
  C4. The JSON Recovery Parser on a raw response of the model.
  \<^item> A response that is blank after trimming (or absent) fails with the error of an empty
    output.
  \<^item> Otherwise the trimmed response loses a fence at its start, with the tag \<open>json\<close> in any
    case and the white space after it, and a fence at its end with the white space before it.
    When the remaining text parses as JSON, the parsed value is returned.
  \<^item> When it does not parse and a closing brace follows its first opening brace, the text from
    the first opening brace to the last closing brace is parsed instead: the value is returned,
    or the parse fails, with the syntax error of \<open>JSON.parse\<close>.
  \<^item> When it does not parse and holds no such pair of braces, the parser fails with the error
    that the output was not valid JSON. This error and the syntax error are the failures of
    an invalid model output.
  \<^item> A block in fences, with or without the tag, around an object leaves the object; a text
    that neither starts nor ends with a fence is left as it is after trimming.
\<close>

theorem C4_parse_json_safely:
  "(trim (or_empty raw) = [] \<longrightarrow>
      parseJsonSafely rt raw = Inl (Error ''Model returned empty output''))
   \<and> (\<forall>v. trim (or_empty raw) \<noteq> [] \<longrightarrow> JSON_parse rt (without_fences raw) = Inr v \<longrightarrow>
          parseJsonSafely rt raw = Inr v)
   \<and> (\<forall>m pre mid post.
          JSON_parse rt (without_fences raw) = Inl m \<longrightarrow>
          without_fences raw = pre @ CHR ''{'' # mid @ CHR ''}'' # post \<longrightarrow>
          CHR ''{'' \<notin> set pre \<longrightarrow> CHR ''}'' \<notin> set post \<longrightarrow>
          parseJsonSafely rt raw =
            (case JSON_parse rt (CHR ''{'' # mid @ ''}'') of
               Inr v \<Rightarrow> Inr v
             | Inl m' \<Rightarrow> Inl (SyntaxError m')))
   \<and> (\<forall>m. trim (or_empty raw) \<noteq> [] \<longrightarrow> JSON_parse rt (without_fences raw) = Inl m \<longrightarrow>
          \<not> (\<exists>pre mid post. without_fences raw = pre @ CHR ''{'' # mid @ CHR ''}'' # post) \<longrightarrow>
          parseJsonSafely rt raw = Inl (Error ''LLM output was not valid JSON''))
   \<and> (\<forall>lead tag ws1 mid ws2 trail.
          (\<forall>c\<in>set (lead @ ws1 @ ws2 @ trail). is_ws c) \<longrightarrow>
          (tag = [] \<or> toLowerCase tag = ''json'') \<longrightarrow>
          without_fences
            (Some (lead @ ''```'' @ tag @ ws1 @ CHR ''{'' # mid @ CHR ''}'' # ws2 @ ''```'' @ trail))
          = CHR ''{'' # mid @ ''}'')
   \<and> (\<forall>s. \<not> prefix ''```'' (trim s) \<longrightarrow> \<not> suffix ''```'' (trim s) \<longrightarrow>
          without_fences (Some s) = trim s)"
proof (intro conjI allI impI)
  assume "trim (or_empty raw) = []"
  then show "parseJsonSafely rt raw = Inl (Error ''Model returned empty output'')"
    by (simp add: parse_eq)
next
  fix v
  assume "trim (or_empty raw) \<noteq> []" "JSON_parse rt (without_fences raw) = Inr v"
  then show "parseJsonSafely rt raw = Inr v"
    by (simp add: parse_eq)
next
  fix m pre mid post
  assume p: "JSON_parse rt (without_fences raw) = Inl m"
    and w: "without_fences raw = pre @ CHR ''{'' # mid @ CHR ''}'' # post"
    and b: "CHR ''{'' \<notin> set pre" "CHR ''}'' \<notin> set post"
  from w have ne: "trim (or_empty raw) \<noteq> []"
    using without_fences_blank [of raw] by auto
  have "brace_match (without_fences raw) = Some (CHR ''{'' # mid @ ''}'')"
    unfolding w using b by (rule brace_match_Some)
  with p ne show "parseJsonSafely rt raw =
            (case JSON_parse rt (CHR ''{'' # mid @ ''}'') of
               Inr v \<Rightarrow> Inr v
             | Inl m' \<Rightarrow> Inl (SyntaxError m'))"
    by (simp add: parse_eq)
next
  fix m
  assume ne: "trim (or_empty raw) \<noteq> []"
    and p: "JSON_parse rt (without_fences raw) = Inl m"
    and n: "\<not> (\<exists>pre mid post. without_fences raw = pre @ CHR ''{'' # mid @ CHR ''}'' # post)"
  from n have "brace_match (without_fences raw) = None" by (rule brace_match_None)
  with p ne show "parseJsonSafely rt raw = Inl (Error ''LLM output was not valid JSON'')"
    by (simp add: parse_eq)
next
  fix lead tag ws1 mid ws2 trail
  assume "\<forall>c\<in>set (lead @ ws1 @ ws2 @ trail). is_ws c" "tag = [] \<or> toLowerCase tag = ''json''"
  then show "without_fences
            (Some (lead @ ''```'' @ tag @ ws1 @ CHR ''{'' # mid @ CHR ''}'' # ws2 @ ''```'' @ trail))
          = CHR ''{'' # mid @ ''}''"
    using fenced_block [of lead ws1 ws2 trail tag mid] by (simp add: fence_def)
next
  fix s
  assume "\<not> prefix ''```'' (trim s)" "\<not> suffix ''```'' (trim s)"
  then show "without_fences (Some s) = trim s"
    using no_fence [of "trim s"] by (simp add: without_fences_def or_empty_def fence_def)
qed


text \<open>
  The examples of the specification: a fenced block, an object inside prose, a text without
  JSON; and braces that do not parse, and a blank response.
\<close>

theorem C4_parse_json_safely_witness:
  \<open>parseJsonSafely parser_env (Some ''```json\<newline>{"tone":"neutral"}\<newline>```'')
     = Inr (JObj [(''tone'', JStr ''neutral'')])
   \<and> parseJsonSafely parser_env (Some ''Here you go: {"tone":"neutral"} thanks'')
     = Inr (JObj [(''tone'', JStr ''neutral'')])
   \<and> parseJsonSafely parser_env (Some ''not json at all'')
     = Inl (Error ''LLM output was not valid JSON'')
   \<and> parseJsonSafely parser_env (Some ''{not json}'') = Inl (SyntaxError ''Unexpected token'')
   \<and> parseJsonSafely parser_env (Some '' \<newline> '')
     = Inl (Error ''Model returned empty output'')\<close>
proof -
  let ?obj = \<open>''{"tone":"neutral"}''\<close>
  let ?fenced = \<open>Some ''```json\<newline>{"tone":"neutral"}\<newline>```''\<close>
  let ?prose = \<open>''Here you go: {"tone":"neutral"} thanks''\<close>
  have parse_obj: "JSON_parse parser_env ?obj = Inr (JObj [(''tone'', JStr ''neutral'')])"
    by (simp add: parser_env_def example_parser_def)
  have parse_other: "s \<noteq> ?obj \<Longrightarrow> JSON_parse parser_env s = Inl ''Unexpected token''" for s
    by (simp add: parser_env_def example_parser_def)
  have f1: "without_fences ?fenced = ?obj"
    using C4_parse_json_safely [of ?fenced parser_env, THEN conjunct2, THEN conjunct2, THEN conjunct2,
              THEN conjunct2, THEN conjunct1, rule_format,
              of "[]" "''\<newline>''" "''\<newline>''" "[]" "''json''" \<open>''"tone":"neutral"''\<close>]
    by (simp add: is_ws_def toLowerCase_def toLowerChar_def upper_chars_def lower_chars_def)
  have f2: "trim (or_empty ?fenced) \<noteq> []" by code_simp
  have fenced: "parseJsonSafely parser_env ?fenced = Inr (JObj [(''tone'', JStr ''neutral'')])"
    using C4_parse_json_safely [of ?fenced parser_env, THEN conjunct2, THEN conjunct1, rule_format, OF f2]
      parse_obj f1 by simp
  have p0: "trim ?prose = ?prose" by code_simp
  have pp: "\<not> prefix ''```'' (trim ?prose)" "\<not> suffix ''```'' (trim ?prose)" by code_simp+
  have p1: "without_fences (Some ?prose) = ?prose"
    using C4_parse_json_safely [of "Some ?prose" parser_env, THEN conjunct2, THEN conjunct2, THEN conjunct2,
              THEN conjunct2, THEN conjunct2, rule_format, OF pp]
    unfolding p0 .
  have p2: "JSON_parse parser_env (without_fences (Some ?prose)) = Inl ''Unexpected token''"
    unfolding p1 by (rule parse_other) simp
  have prose: "parseJsonSafely parser_env (Some ?prose) = Inr (JObj [(''tone'', JStr ''neutral'')])"
    using C4_parse_json_safely [of "Some ?prose" parser_env, THEN conjunct2, THEN conjunct2, THEN conjunct1,
              rule_format, OF p2, of "''Here you go: ''" \<open>''"tone":"neutral"''\<close> "'' thanks''"]
      parse_obj p1 by simp
  let ?none = "''not json at all''"
  have n0: "trim ?none = ?none" by code_simp
  have np: "\<not> prefix ''```'' (trim ?none)" "\<not> suffix ''```'' (trim ?none)" by code_simp+
  have n1: "without_fences (Some ?none) = ?none"
    using C4_parse_json_safely [of "Some ?none" parser_env, THEN conjunct2, THEN conjunct2, THEN conjunct2,
              THEN conjunct2, THEN conjunct2, rule_format, OF np]
    unfolding n0 .
  have n2: "JSON_parse parser_env (without_fences (Some ?none)) = Inl ''Unexpected token''"
    unfolding n1 by (rule parse_other) simp
  have n3: "\<not> (\<exists>pre mid post. without_fences (Some ?none) = pre @ CHR ''{'' # mid @ CHR ''}'' # post)"
  proof
    assume "\<exists>pre mid post. without_fences (Some ?none) = pre @ CHR ''{'' # mid @ CHR ''}'' # post"
    then obtain pre mid post where "?none = pre @ CHR ''{'' # mid @ CHR ''}'' # post"
      unfolding n1 by blast
    then have "CHR ''{'' \<in> set ?none" by (metis in_set_conv_decomp)
    then show False by simp
  qed
  have n4: "trim (or_empty (Some ?none)) \<noteq> []" using n0 by (simp add: or_empty_def)
  have none: "parseJsonSafely parser_env (Some ?none) = Inl (Error ''LLM output was not valid JSON'')"
    using C4_parse_json_safely [of "Some ?none" parser_env, THEN conjunct2, THEN conjunct2, THEN conjunct2,
              THEN conjunct1, rule_format, OF n4 n2 n3] .
  let ?bad = "''{not json}''"
  have b0: "trim ?bad = ?bad" by code_simp
  have bp: "\<not> prefix ''```'' (trim ?bad)" "\<not> suffix ''```'' (trim ?bad)" by code_simp+
  have b1: "without_fences (Some ?bad) = ?bad"
    using C4_parse_json_safely [of "Some ?bad" parser_env, THEN conjunct2, THEN conjunct2, THEN conjunct2,
              THEN conjunct2, THEN conjunct2, rule_format, OF bp]
    unfolding b0 .
  have b2: "JSON_parse parser_env (without_fences (Some ?bad)) = Inl ''Unexpected token''"
    unfolding b1 by (rule parse_other) simp
  have bad: "parseJsonSafely parser_env (Some ?bad) = Inl (SyntaxError ''Unexpected token'')"
    using C4_parse_json_safely [of "Some ?bad" parser_env, THEN conjunct2, THEN conjunct2, THEN conjunct1,
              rule_format, OF b2, of "[]" "''not json''" "[]"]
      b1 parse_other [of ?bad] by simp
  have e0: "trim (or_empty (Some '' \<newline> '')) = []" by code_simp
  have blank: "parseJsonSafely parser_env (Some '' \<newline> '') = Inl (Error ''Model returned empty output'')"
    using C4_parse_json_safely [of "Some '' \<newline> ''" parser_env, THEN conjunct1, rule_format, OF e0] .
  from fenced prose none bad blank show ?thesis by blast
qed

section \<open>Quota errors and the retry hint\<close>




lemma span_run:
  assumes "\<forall>x\<in>set xs. P x" and "ys = [] \<or> \<not> P (hd ys)"
  shows "takeWhile P (xs @ ys) = xs" and "dropWhile P (xs @ ys) = ys"
  using assms by (induction xs) (auto simp: takeWhile_eq_Nil_iff dropWhile_eq_self_iff)

lemma digit_not_ws: "is_digit c \<Longrightarrow> \<not> is_ws c"
  by (auto simp: is_digit_def is_ws_def)

lemma s_not_digit: "toLowerChar c = CHR ''s'' \<Longrightarrow> \<not> is_digit c \<and> c \<noteq> CHR ''.''"
  by (auto simp: is_digit_def toLowerChar_def upper_chars_def lower_chars_def)

lemma dot_not_digit: "\<not> is_digit (CHR ''.'')"
  by (simp add: is_digit_def)

lemma lower_length: "toLowerCase lit = t \<Longrightarrow> length lit = length t"
  by (auto simp: toLowerCase_def)

lemma retryIn_here_sound:
  assumes "retry_in_phrase s whole fraction"
  shows "retryIn_here s = Some (number_text whole fraction)"
proof -
  from assms obtain lit ws c rest where
    s: "s = lit @ ws @ number_text whole fraction @ c # rest"
    and lit: "toLowerCase lit = ''retry in''"
    and ws: "ws \<noteq> []" "\<forall>x\<in>set ws. is_ws x"
    and whole: "whole \<noteq> []" "\<forall>d\<in>set whole. is_digit d"
    and fr: "\<forall>d\<in>set fraction. is_digit d"
    and c: "toLowerChar c = CHR ''s''"
    by (auto simp: retry_in_phrase_def)
  have len: "length lit = 8" using lower_length [OF lit] by simp
  let ?r2 = "number_text whole fraction @ c # rest"
  let ?r3 = "(if fraction = [] then [] else CHR ''.'' # fraction) @ c # rest"
  have t8: "take 8 s = lit" and d8: "drop 8 s = ws @ ?r2" using s len by simp_all
  have "\<not> is_ws (hd ?r2)" using whole by (cases whole) (auto simp: number_text_def digit_not_ws)
  then have w1: "takeWhile is_ws (ws @ ?r2) = ws" and w2: "dropWhile is_ws (ws @ ?r2) = ?r2"
    using ws span_run [of ws is_ws ?r2] by auto
  have r2: "?r2 = whole @ ?r3" by (simp add: number_text_def)
  have "\<not> is_digit (hd ?r3)" using s_not_digit [OF c] dot_not_digit by simp
  then have g1: "takeWhile is_digit ?r2 = whole" and g2: "dropWhile is_digit ?r2 = ?r3"
    unfolding r2 using whole span_run [of whole is_digit ?r3] by auto
  have f1: "takeWhile is_digit (fraction @ c # rest) = fraction"
    and f2: "dropWhile is_digit (fraction @ c # rest) = c # rest"
    using fr s_not_digit [OF c] span_run [of fraction is_digit "c # rest"] by auto
  have sc: "is_s (c # rest)" using c by (simp add: is_s_def)
  show ?thesis
  proof (cases "fraction = []")
    case True
    then show ?thesis
      unfolding retryIn_here_def t8 d8 Let_def w1 w2 g1 g2
      using lit ws whole sc s_not_digit [OF c] by (simp add: number_text_def)
  next
    case False
    then show ?thesis
      unfolding retryIn_here_def t8 d8 Let_def w1 w2 g1 g2
      using lit ws whole sc f1 f2 by (simp add: number_text_def)
  qed
qed


lemma is_s_D: "is_s r \<Longrightarrow> \<exists>c rest. r = c # rest \<and> toLowerChar c = CHR ''s''"
  by (cases r) (auto simp: is_s_def)

lemma takeWhile_all: "\<forall>x\<in>set (takeWhile P xs). P x"
  by (auto dest: set_takeWhileD)

lemma retryIn_here_complete:
  assumes "retryIn_here s = Some t"
  shows "\<exists>whole fraction. retry_in_phrase s whole fraction \<and> t = number_text whole fraction"
proof -
  let ?lit = "take 8 s"
  let ?r1 = "drop 8 s"
  let ?ws = "takeWhile is_ws ?r1"
  let ?r2 = "dropWhile is_ws ?r1"
  let ?whole = "takeWhile is_digit ?r2"
  let ?r3 = "dropWhile is_digit ?r2"
  have s: "s = ?lit @ ?ws @ ?whole @ ?r3" by simp
  from assms have lit: "toLowerCase ?lit = ''retry in''"
    by (auto simp: retryIn_here_def split: if_splits)
  from assms lit have ws: "?ws \<noteq> []" and whole: "?whole \<noteq> []"
    by (auto simp: retryIn_here_def Let_def split: if_splits)
  from assms lit ws whole obtain c r4 where r3: "?r3 = c # r4"
    by (cases ?r3) (auto simp: retryIn_here_def Let_def split: if_splits)
  let ?frac = "takeWhile is_digit r4"
  show ?thesis
  proof (cases "c = CHR ''.'' \<and> ?frac \<noteq> []")
    case True
    with assms lit ws whole r3 have sfx: "is_s (dropWhile is_digit r4)"
      and t: "t = ?whole @ CHR ''.'' # ?frac"
      by (auto simp: retryIn_here_def Let_def split: if_splits)
    from is_s_D [OF sfx] obtain c' rest where
      d: "dropWhile is_digit r4 = c' # rest" and c': "toLowerChar c' = CHR ''s''" by blast
    have "r4 = ?frac @ c' # rest" using d takeWhile_dropWhile_id [of is_digit r4] by simp
    with s r3 True have "s = ?lit @ ?ws @ number_text ?whole ?frac @ c' # rest"
      by (simp add: number_text_def)
    then have "retry_in_phrase s ?whole ?frac"
      unfolding retry_in_phrase_def
      using lit ws whole c' takeWhile_all [of is_ws ?r1] takeWhile_all [of is_digit ?r2]
        takeWhile_all [of is_digit r4]
      by (intro exI [of _ ?lit] exI [of _ ?ws] exI [of _ c'] exI [of _ rest]) auto
    moreover have "t = number_text ?whole ?frac" using t True by (simp add: number_text_def)
    ultimately show ?thesis by blast
  next
    case False
    with assms lit ws whole r3 have sfx: "is_s ?r3" and t: "t = ?whole"
      by (auto simp: retryIn_here_def Let_def split: if_splits)
    from sfx r3 have c: "toLowerChar c = CHR ''s''" by (simp add: is_s_def)
    from s r3 have "s = ?lit @ ?ws @ number_text ?whole [] @ c # r4"
      by (simp add: number_text_def)
    then have "retry_in_phrase s ?whole []"
      unfolding retry_in_phrase_def
      using lit ws whole c takeWhile_all [of is_ws ?r1] takeWhile_all [of is_digit ?r2]
      by (intro exI [of _ ?lit] exI [of _ ?ws] exI [of _ c] exI [of _ r4]) auto
    moreover have "t = number_text ?whole []" using t by (simp add: number_text_def)
    ultimately show ?thesis by blast
  qed
qed



lemma skip_backslash_quote:
  "b = [] \<or> b = [CHR 0x5C] \<Longrightarrow> skip_backslash (b @ CHR 0x22 # r) = CHR 0x22 # r"
  by (auto simp: skip_backslash_def)

lemma skip_backslash_D:
  "skip_backslash r = CHR 0x22 # r' \<Longrightarrow> \<exists>b. (b = [] \<or> b = [CHR 0x5C]) \<and> r = b @ CHR 0x22 # r'"
  by (cases r) (auto simp: skip_backslash_def split: if_splits)

lemma retryDelay_here_sound:
  assumes "retry_delay_field s ds"
  shows "retryDelay_here s = Some ds"
proof -
  from assms obtain lit b1 b2 c rest where
    s: "s = lit @ b1 @ [CHR 0x22, CHR '':''] @ b2 @ [CHR 0x22] @ ds @ c # rest"
    and lit: "toLowerCase lit = ''retrydelay''"
    and b: "b1 = [] \<or> b1 = [CHR 0x5C]" "b2 = [] \<or> b2 = [CHR 0x5C]"
    and ds: "ds \<noteq> []" "\<forall>d\<in>set ds. is_digit d"
    and c: "toLowerChar c = CHR ''s''"
    unfolding retry_delay_field_def by blast
  have len: "length lit = 10" using lower_length [OF lit] by simp
  have t10: "take 10 s = lit"
    and d10: "drop 10 s = b1 @ CHR 0x22 # CHR '':'' # b2 @ CHR 0x22 # ds @ c # rest"
    using s len by simp_all
  have k1: "skip_backslash (drop 10 s) = CHR 0x22 # CHR '':'' # b2 @ CHR 0x22 # ds @ c # rest"
    unfolding d10 using b(1) by (rule skip_backslash_quote)
  have k2: "skip_backslash (b2 @ CHR 0x22 # ds @ c # rest) = CHR 0x22 # ds @ c # rest"
    using b(2) by (rule skip_backslash_quote)
  have g1: "takeWhile is_digit (ds @ c # rest) = ds"
    and g2: "dropWhile is_digit (ds @ c # rest) = c # rest"
    using ds s_not_digit [OF c] span_run [of ds is_digit "c # rest"] by auto
  have sc: "is_s (c # rest)" using c by (simp add: is_s_def)
  show ?thesis
    unfolding retryDelay_here_def t10 k1 using lit ds sc by (simp add: k2 g1 g2)
qed

lemma retryDelay_here_complete:
  assumes "retryDelay_here s = Some ds"
  shows "retry_delay_field s ds"
proof -
  let ?lit = "take 10 s"
  from assms have lit: "toLowerCase ?lit = ''retrydelay''"
    by (auto simp: retryDelay_here_def split: if_splits)
  from assms lit obtain r1 where k1: "skip_backslash (drop 10 s) = CHR 0x22 # CHR '':'' # r1"
    by (auto simp: retryDelay_here_def split: if_splits list.splits)
  from assms lit k1 obtain r2 where k2: "skip_backslash r1 = CHR 0x22 # r2"
    by (auto simp: retryDelay_here_def split: if_splits list.splits)
  from assms lit k1 k2 have ds: "ds = takeWhile is_digit r2" "ds \<noteq> []"
    and sfx: "is_s (dropWhile is_digit r2)"
    by (auto simp: retryDelay_here_def split: if_splits)
  from is_s_D [OF sfx] obtain c rest where
    d: "dropWhile is_digit r2 = c # rest" and c: "toLowerChar c = CHR ''s''" by blast
  have r2: "r2 = ds @ c # rest" using d ds takeWhile_dropWhile_id [of is_digit r2] by simp
  from skip_backslash_D [OF k1] obtain b1 where
    b1: "b1 = [] \<or> b1 = [CHR 0x5C]" "drop 10 s = b1 @ CHR 0x22 # CHR '':'' # r1" by blast
  from skip_backslash_D [OF k2] obtain b2 where
    b2: "b2 = [] \<or> b2 = [CHR 0x5C]" "r1 = b2 @ CHR 0x22 # r2" by blast
  have "s = ?lit @ drop 10 s" by simp
  then have "s = ?lit @ b1 @ [CHR 0x22, CHR '':''] @ b2 @ [CHR 0x22] @ ds @ c # rest"
    using b1(2) b2(2) r2 by simp
  then show ?thesis
    unfolding retry_delay_field_def
    using lit b1(1) b2(1) ds c takeWhile_all [of is_digit r2]
    by (intro exI [of _ ?lit] exI [of _ b1] exI [of _ b2] exI [of _ c] exI [of _ rest]) auto
qed

lemma search_skip:
  "(\<forall>k<length pre. here (drop k (pre @ s)) = None) \<Longrightarrow> search here (pre @ s) = search here s"
proof (induction pre)
  case Nil
  show ?case by simp
next
  case (Cons c pre)
  from Cons.prems have "here (drop 0 ((c # pre) @ s)) = None" by blast
  then have h: "here (c # pre @ s) = None" by simp
  have "\<forall>k<length pre. here (drop k (pre @ s)) = None"
  proof (intro allI impI)
    fix k assume "k < length pre"
    then have "Suc k < length (c # pre)" by simp
    with Cons.prems have "here (drop (Suc k) ((c # pre) @ s)) = None" by blast
    then show "here (drop k (pre @ s)) = None" by simp
  qed
  with Cons.IH h show ?case by simp
qed

lemma search_hit: "here s = Some r \<Longrightarrow> search here s = Some r"
  by (cases s) simp_all

lemma search_None: "(\<forall>k\<le>length s. here (drop k s) = None) \<Longrightarrow> search here s = None"
proof (induction s)
  case Nil
  then show ?case by simp
next
  case (Cons c s)
  from Cons.prems have "here (drop 0 (c # s)) = None" by blast
  then have h: "here (c # s) = None" by simp
  have "\<forall>k\<le>length s. here (drop k s) = None"
  proof (intro allI impI)
    fix k assume "k \<le> length s"
    then have "Suc k \<le> length (c # s)" by simp
    with Cons.prems have "here (drop (Suc k) (c # s)) = None" by blast
    then show "here (drop k s) = None" by simp
  qed
  with Cons.IH h show ?case by simp
qed

lemma includes_str_sublist: "includes_str s t = sublist t s"
  by (induction s) (simp_all add: sublist_Cons_right)




lemma contains_ci_iff: "sublist needle (toLowerCase msg) = contains_ci msg needle"
proof -
  have "sublist needle (map toLowerChar msg)
        = (\<exists>pre mid post. msg = pre @ mid @ post \<and> map toLowerChar mid = needle)"
    unfolding sublist_def
    by (auto simp: map_eq_append_conv append_eq_map_conv) blast+
  then show ?thesis
    by (simp add: contains_ci_def toLowerCase_def)
qed

lemma looksLikeQuota_iff: "looksLikeQuota msg = quota_signature msg"
  by (simp add: looksLikeQuota_def quota_signature_def contains_ci_iff includes_str_sublist)

lemma no_phrase_None:
  "(\<forall>w f. \<not> retry_in_phrase s w f) \<Longrightarrow> retryIn_here s = None"
  using retryIn_here_complete [of s] by (cases "retryIn_here s") auto

lemma no_field_None:
  "(\<forall>d. \<not> retry_delay_field s d) \<Longrightarrow> retryDelay_here s = None"
  using retryDelay_here_complete [of s] by (cases "retryDelay_here s") auto

lemma leftmost_phrase:
  assumes m: "msg = pre @ phrase" and p: "retry_in_phrase phrase whole fraction"
    and first: "\<forall>k<length pre. \<forall>w f. \<not> retry_in_phrase (drop k msg) w f"
  shows "extractRetryAfterSeconds rt msg
         = Some (Math_max_1 (Math_ceil (Number rt (number_text whole fraction))))"
proof -
  from p have ne: "msg \<noteq> []" using m by (auto simp: retry_in_phrase_def)
  have "\<forall>k<length pre. retryIn_here (drop k (pre @ phrase)) = None"
    using first m by (auto intro: no_phrase_None)
  then have "search retryIn_here msg = search retryIn_here phrase"
    unfolding m by (rule search_skip)
  also have "\<dots> = Some (number_text whole fraction)"
    using retryIn_here_sound [OF p] by (rule search_hit)
  finally show ?thesis
    using ne by (simp add: extractRetryAfterSeconds_def)
qed

lemma leftmost_field:
  assumes m: "msg = pre @ field" and p: "retry_delay_field field ds"
    and none: "\<forall>k\<le>length msg. \<forall>w f. \<not> retry_in_phrase (drop k msg) w f"
    and first: "\<forall>k<length pre. \<forall>d. \<not> retry_delay_field (drop k msg) d"
  shows "extractRetryAfterSeconds rt msg = Some (Number rt ds)"
proof -
  from p have ne: "msg \<noteq> []" using m by (auto simp: retry_delay_field_def)
  have r: "search retryIn_here msg = None"
    using none by (intro search_None) (auto intro: no_phrase_None)
  have "\<forall>k<length pre. retryDelay_here (drop k (pre @ field)) = None"
    using first m by (auto intro: no_field_None)
  then have "search retryDelay_here msg = search retryDelay_here field"
    unfolding m by (rule search_skip)
  also have "\<dots> = Some ds"
    using retryDelay_here_sound [OF p] by (rule search_hit)
  finally show ?thesis
    using ne r by (simp add: extractRetryAfterSeconds_def)
qed

lemma no_hint:
  assumes none: "\<forall>k\<le>length msg. \<forall>w f. \<not> retry_in_phrase (drop k msg) w f"
    and none': "\<forall>k\<le>length msg. \<forall>d. \<not> retry_delay_field (drop k msg) d"
  shows "extractRetryAfterSeconds rt msg = None"
proof -
  have "search retryIn_here msg = None"
    using none by (intro search_None) (auto intro: no_phrase_None)
  moreover have "search retryDelay_here msg = None"
    using none' by (intro search_None) (auto intro: no_field_None)
  ultimately show ?thesis
    by (simp add: extractRetryAfterSeconds_def)
qed

lemma max_ceil:
  "\<lceil>d\<rceil> = n \<Longrightarrow> Math_max_1 (Math_ceil (Finite d)) = Finite (of_int (max 1 n))"
  by (auto simp: max_def)

lemma thrown_in_analysis:
  assumes "select_documents cfg rt st ids = Inr (st1, selected)"
    and "\<not> (multimodal cfg selected \<and> documentParts cfg rt selected = [])"
    and "runOptionBAnalysis cfg rt (analysisText cfg selected) (documentParts cfg rt selected)
         = (sent, Inl error)"
  shows "analyze cfg rt st ids = (st1, analyze_catch rt error, sent)"
proof -
  have "analyze cfg rt st ids = analyze_selected cfg rt st1 selected"
    using assms(1) by (simp add: analyze_def)
  also have "\<dots> = respond cfg rt st1 selected (sent, Inl error)"
    using assms(2,3) unfolding analyze_selected_def by (simp only: if_False)
  finally show ?thesis by (simp add: respond_def)
qed

text \<open>
  C5, as the code has it. An error whose message has the signature of a rate limit (it
  contains \<open>429\<close>, or without regard to case \<open>quota exceeded\<close>, \<open>too many requests\<close> or
  \<open>rate limit\<close>) is answered with the status 429 and \<open>retryAfterSeconds\<close>; every other
  error is answered with the status 500; and this is the answer to the analyze request in
  which the analyzer throws the error. \<open>retryAfterSeconds\<close> is
  \<^item> for the leftmost phrase \<open>retry in N s\<close> of the message, the ceiling, but at least 1, of
    the double that \<open>Number\<close> gives for the numeral \<open>N\<close>: this is the ceiling of \<open>N\<close>, but
    at least 1, whenever that double is finite and has the ceiling of \<open>N\<close>;
  \<^item> for the leftmost field \<open>retryDelay":"Ns\<close>, when the message has no such phrase, the
    double that \<open>Number\<close> gives for the digits \<open>N\<close>: this is the integer \<open>N\<close> whenever
    \<open>N\<close> is a double;
  \<^item> \<open>null\<close> when the message has neither; the response also carries \<open>null\<close> when the
    double is \<open>Infinity\<close>.
\<close>

theorem C5_rate_limited:
  "(quota_signature (message error) \<longrightarrow>
      analyze_catch rt error
      = Response 429 (RateLimitedBody quota_message
                        (json_number (extractRetryAfterSeconds rt (message error)))))
   \<and> (\<not> quota_signature (message error) \<longrightarrow>
      analyze_catch rt error
      = Response 500 (ErrorBody (if message error = [] then ''Analysis failed''
                                 else message error)))
   \<and> (\<forall>cfg st ids st1 selected sent.
        select_documents cfg rt st ids = Inr (st1, selected) \<longrightarrow>
        \<not> (multimodal cfg selected \<and> documentParts cfg rt selected = []) \<longrightarrow>
        runOptionBAnalysis cfg rt (analysisText cfg selected) (documentParts cfg rt selected)
          = (sent, Inl error) \<longrightarrow>
        analyze cfg rt st ids = (st1, analyze_catch rt error, sent))
   \<and> (\<forall>pre phrase whole fraction.
        msg = pre @ phrase \<longrightarrow> retry_in_phrase phrase whole fraction \<longrightarrow>
        (\<forall>k<length pre. \<forall>w f. \<not> retry_in_phrase (drop k msg) w f) \<longrightarrow>
        extractRetryAfterSeconds rt msg
          = Some (Math_max_1 (Math_ceil (Number rt (number_text whole fraction))))
        \<and> (\<forall>d. Number rt (number_text whole fraction) = Finite d \<longrightarrow>
               \<lceil>d\<rceil> = \<lceil>decimal_value whole fraction\<rceil> \<longrightarrow>
               extractRetryAfterSeconds rt msg
               = Some (Finite (of_int (max 1 \<lceil>decimal_value whole fraction\<rceil>)))))
   \<and> (\<forall>pre field ds.
        msg = pre @ field \<longrightarrow> retry_delay_field field ds \<longrightarrow>
        (\<forall>k\<le>length msg. \<forall>w f. \<not> retry_in_phrase (drop k msg) w f) \<longrightarrow>
        (\<forall>k<length pre. \<forall>d. \<not> retry_delay_field (drop k msg) d) \<longrightarrow>
        extractRetryAfterSeconds rt msg = Some (Number rt ds)
        \<and> (Number rt ds = Finite (of_nat (number_of_digits ds)) \<longrightarrow>
             extractRetryAfterSeconds rt msg = Some (Finite (of_nat (number_of_digits ds)))))
   \<and> ((\<forall>k\<le>length msg. \<forall>w f. \<not> retry_in_phrase (drop k msg) w f) \<longrightarrow>
       (\<forall>k\<le>length msg. \<forall>d. \<not> retry_delay_field (drop k msg) d) \<longrightarrow>
       extractRetryAfterSeconds rt msg = None)"
proof (intro conjI allI impI)
  assume "quota_signature (message error)"
  then show "analyze_catch rt error
      = Response 429 (RateLimitedBody quota_message
                        (json_number (extractRetryAfterSeconds rt (message error))))"
    by (simp add: analyze_catch_def parseGeminiQuotaError_def looksLikeQuota_iff)
next
  assume "\<not> quota_signature (message error)"
  then show "analyze_catch rt error
      = Response 500 (ErrorBody (if message error = [] then ''Analysis failed''
                                 else message error))"
    by (simp add: analyze_catch_def parseGeminiQuotaError_def looksLikeQuota_iff)
next
  fix cfg st ids st1 selected sent
  assume "select_documents cfg rt st ids = Inr (st1, selected)"
    "\<not> (multimodal cfg selected \<and> documentParts cfg rt selected = [])"
    "runOptionBAnalysis cfg rt (analysisText cfg selected) (documentParts cfg rt selected)
          = (sent, Inl error)"
  then show "analyze cfg rt st ids = (st1, analyze_catch rt error, sent)"
    by (rule thrown_in_analysis)
next
  fix pre phrase whole fraction
  assume "msg = pre @ phrase" "retry_in_phrase phrase whole fraction"
    "\<forall>k<length pre. \<forall>w f. \<not> retry_in_phrase (drop k msg) w f"
  then show "extractRetryAfterSeconds rt msg
          = Some (Math_max_1 (Math_ceil (Number rt (number_text whole fraction))))"
    by (rule leftmost_phrase)
next
  fix pre phrase whole fraction d
  assume "msg = pre @ phrase" "retry_in_phrase phrase whole fraction"
    "\<forall>k<length pre. \<forall>w f. \<not> retry_in_phrase (drop k msg) w f"
  then have "extractRetryAfterSeconds rt msg
          = Some (Math_max_1 (Math_ceil (Number rt (number_text whole fraction))))"
    by (rule leftmost_phrase)
  moreover assume "Number rt (number_text whole fraction) = Finite d"
    "\<lceil>d\<rceil> = \<lceil>decimal_value whole fraction\<rceil>"
  ultimately show "extractRetryAfterSeconds rt msg
               = Some (Finite (of_int (max 1 \<lceil>decimal_value whole fraction\<rceil>)))"
    by (simp add: max_ceil)
next
  fix pre field ds
  assume "msg = pre @ field" "retry_delay_field field ds"
    "\<forall>k\<le>length msg. \<forall>w f. \<not> retry_in_phrase (drop k msg) w f"
    "\<forall>k<length pre. \<forall>d. \<not> retry_delay_field (drop k msg) d"
  then show "extractRetryAfterSeconds rt msg = Some (Number rt ds)"
    by (rule leftmost_field)
next
  fix pre field ds
  assume "msg = pre @ field" "retry_delay_field field ds"
    "\<forall>k\<le>length msg. \<forall>w f. \<not> retry_in_phrase (drop k msg) w f"
    "\<forall>k<length pre. \<forall>d. \<not> retry_delay_field (drop k msg) d"
  then have "extractRetryAfterSeconds rt msg = Some (Number rt ds)"
    by (rule leftmost_field)
  moreover assume "Number rt ds = Finite (of_nat (number_of_digits ds))"
  ultimately show "extractRetryAfterSeconds rt msg = Some (Finite (of_nat (number_of_digits ds)))"
    by simp
next
  assume "\<forall>k\<le>length msg. \<forall>w f. \<not> retry_in_phrase (drop k msg) w f"
    "\<forall>k\<le>length msg. \<forall>d. \<not> retry_delay_field (drop k msg) d"
  then show "extractRetryAfterSeconds rt msg = None"
    by (rule no_hint)
qed

lemma no_phrase_upto:
  assumes "list_all (\<lambda>k. retryIn_here (drop k msg) = None) [0..<n]"
  shows "\<forall>k<n. \<forall>w f. \<not> retry_in_phrase (drop k msg) w f"
proof (intro allI impI notI)
  fix k w f
  assume "k < n" and p: "retry_in_phrase (drop k msg) w f"
  with assms have "retryIn_here (drop k msg) = None" by (simp add: list_all_iff)
  with retryIn_here_sound [OF p] show False by simp
qed

lemma no_field_upto:
  assumes "list_all (\<lambda>k. retryDelay_here (drop k msg) = None) [0..<n]"
  shows "\<forall>k<n. \<forall>d. \<not> retry_delay_field (drop k msg) d"
proof (intro allI impI notI)
  fix k d
  assume "k < n" and p: "retry_delay_field (drop k msg) d"
  with assms have "retryDelay_here (drop k msg) = None" by (simp add: list_all_iff)
  with retryDelay_here_sound [OF p] show False by simp
qed

lemma lower_simps:
  "toLowerCase ''retry in'' = ''retry in''" "toLowerCase ''retryDelay'' = ''retrydelay''"
  "toLowerChar (CHR ''s'') = CHR ''s''"
  by code_simp+

lemma quota_answer:
  "looksLikeQuota (message error) \<Longrightarrow> search retryIn_here (message error) = Some t \<Longrightarrow>
   analyze_catch rt error
   = Response 429 (RateLimitedBody quota_message (json_number (Some (Math_max_1 (Math_ceil (Number rt t))))))"
proof -
  have "retryIn_here [] = None" by code_simp
  then show "looksLikeQuota (message error) \<Longrightarrow> search retryIn_here (message error) = Some t \<Longrightarrow>
   analyze_catch rt error
   = Response 429 (RateLimitedBody quota_message (json_number (Some (Math_max_1 (Math_ceil (Number rt t))))))"
    by (auto simp: analyze_catch_def parseGeminiQuotaError_def extractRetryAfterSeconds_def)
qed

lemma report_run:
  "runOptionBAnalysis default_config example_env (analysisText default_config [report_doc])
     (documentParts default_config example_env [report_doc])
   = ([\<lparr> req_prompt =
           \<lparr> p_transcriptText = ''Document: report.txt\<newline>Revenue grew 12% year over year and margins expanded by 150 bps.'',
             p_lowSignal = True, p_hasAttachedDocs = False, p_retry = False \<rparr>,
         req_documentParts = [] \<rparr>],
      Inl (Error ''429 Too Many Requests''))"
proof -
  have sel: "select_documents default_config example_env report_state (Some (JArr [JStr ''r1'']))
     = Inr (report_state, [report_doc])"
    using report_documents by (rule select_one) (simp add: default_config_def)
  have s: "getSignalLength (Some (doc_text report_doc)) = 53" by code_simp
  have sig: "minAnalysisSignal default_config
              \<le> int (getSignalLength (Some (join ''\<newline>\<newline>'' (map doc_text [report_doc]))))"
    using s by (simp add: default_config_def)
  have budget: "0 \<le> maxInputChars default_config" by (simp add: default_config_def)
  have r: "runOptionBAnalysis default_config example_env
       ''Document: report.txt\<newline>Revenue grew 12% year over year and margins expanded by 150 bps.'' []
   = ([\<lparr> req_prompt =
           \<lparr> p_transcriptText = ''Document: report.txt\<newline>Revenue grew 12% year over year and margins expanded by 150 bps.'',
             p_lowSignal = True, p_hasAttachedDocs = False, p_retry = False \<rparr>,
         req_documentParts = [] \<rparr>],
      Inl (Error ''429 Too Many Requests''))"
    by code_simp
  show ?thesis
    unfolding text_mode(1,2) [OF sel sig budget, folded blocks_text_def] report_blocks by (rule r)
qed

text \<open>
  The claim as it is written fails: for \<open>retry in 0s\<close> the ceiling of \<open>N\<close> is 0, and
  \<open>retryAfterSeconds\<close> is 1; for \<open>retry in 1.00000000000000000001s\<close> the ceiling of \<open>N\<close>
  is 2, and \<open>retryAfterSeconds\<close> is 1, the ceiling of the nearest double.
\<close>

theorem C5_rate_limited_counterexample:
  "analyze_catch example_env (Error ''429 Too Many Requests. Please retry in 0s'')
     = Response 429 (RateLimitedBody quota_message (Some 1))
   \<and> Number example_env ''0'' = Finite 0
   \<and> \<lceil>decimal_value ''0'' []\<rceil> = 0
   \<and> analyze_catch example_env (Error ''429 Please retry in 1.00000000000000000001s'')
     = Response 429 (RateLimitedBody quota_message (Some 1))
   \<and> Number example_env ''1.00000000000000000001'' = Finite 1
   \<and> \<lceil>decimal_value ''1'' ''00000000000000000001''\<rceil> = 2"
proof -
  have q: "looksLikeQuota (message (Error ''429 Too Many Requests. Please retry in 0s''))"
    "looksLikeQuota (message (Error ''429 Please retry in 1.00000000000000000001s''))"
    by code_simp+
  have s: "search retryIn_here (message (Error ''429 Too Many Requests. Please retry in 0s''))
           = Some ''0''"
    "search retryIn_here (message (Error ''429 Please retry in 1.00000000000000000001s''))
           = Some ''1.00000000000000000001''"
    by code_simp+
  have n: "Number example_env ''0'' = Finite 0"
    "Number example_env ''1.00000000000000000001'' = Finite 1"
    by (simp_all add: example_env_def example_Number_def)
  have d: "\<lceil>decimal_value ''0'' []\<rceil> = 0"
    "\<lceil>decimal_value ''1'' ''00000000000000000001''\<rceil> = 2"
    by (simp_all add: decimal_value_def number_of_digits_def digit_value_def ceiling_eq_iff)
  show ?thesis
    unfolding quota_answer [OF q(1) s(1)] quota_answer [OF q(2) s(2)] n
    using d by simp
qed


text \<open>
  The examples of the specification: the hint \<open>retry in 50.417968038s\<close> gives 51, and a
  message with \<open>rate limit\<close> and no hint is still answered with 429, without a duration.
  The analysis of the report with a model that is out of quota is answered with 429.
\<close>

theorem C5_rate_limited_witness:
  \<open>analyze_catch example_env (Error ''429 Please retry in 50.417968038s'')
     = Response 429 (RateLimitedBody quota_message (Some 51))
   \<and> analyze_catch example_env (Error ''Rate limit hit'')
     = Response 429 (RateLimitedBody quota_message None)
   \<and> analyze_catch example_env (Error ''429 "retryDelay":"50s"'')
     = Response 429 (RateLimitedBody quota_message (Some 50))
   \<and> analyze_catch example_env (Error ''fetch failed'') = Response 500 (ErrorBody ''fetch failed'')
   \<and> analyze default_config example_env report_state (Some (JArr [JStr ''r1'']))
     = (report_state, Response 429 (RateLimitedBody quota_message None),
        [\<lparr> req_prompt =
           \<lparr> p_transcriptText = ''Document: report.txt\<newline>Revenue grew 12% year over year and margins expanded by 150 bps.'',
             p_lowSignal = True, p_hasAttachedDocs = False, p_retry = False \<rparr>,
         req_documentParts = [] \<rparr>])\<close>
proof -
  let ?m1 = "''429 Please retry in 50.417968038s''"
  let ?m2 = "''Rate limit hit''"
  let ?m3 = \<open>''429 "retryDelay":"50s"''\<close>
  let ?m4 = "''fetch failed''"
  let ?m5 = "''429 Too Many Requests''"
  have q1: "quota_signature (message (Error ?m1))"
    and q2: "quota_signature (message (Error ?m2))"
    and q3: "quota_signature (message (Error ?m3))"
    and q4: "\<not> quota_signature (message (Error ?m4))"
    and q5: "quota_signature (message (Error ?m5))"
    unfolding looksLikeQuota_iff [symmetric] by code_simp+
  have p1: "retry_in_phrase ''retry in 50.417968038s'' ''50'' ''417968038''"
    unfolding retry_in_phrase_def
    by (intro exI [of _ "''retry in''"] exI [of _ "'' ''"] exI [of _ "CHR ''s''"] exI [of _ "[]"])
       (simp add: lower_simps number_text_def is_ws_def is_digit_def)
  have f1: "\<forall>k<length ''429 Please ''. \<forall>w f. \<not> retry_in_phrase (drop k ?m1) w f"
    by (rule no_phrase_upto) code_simp
  have n1: "Number example_env (number_text ''50'' ''417968038'') = Finite (1773924547411831 / 2 ^ 45)"
    by (simp add: example_env_def example_Number_def number_text_def)
  have c1: "\<lceil>(1773924547411831 :: rat) / 2 ^ 45\<rceil> = 51"
    by (simp add: ceiling_eq_iff)
  have d1: "\<lceil>decimal_value ''50'' ''417968038''\<rceil> = 51"
    by (simp add: decimal_value_def number_of_digits_def digit_value_def ceiling_eq_iff)
  have e1: "extractRetryAfterSeconds example_env ?m1 = Some (Finite 51)"
    using C5_rate_limited [of "Error ?m1" example_env ?m1, THEN conjunct2, THEN conjunct2, THEN conjunct2,
              THEN conjunct1, rule_format,
              of "''429 Please ''" "''retry in 50.417968038s''" "''50''" "''417968038''",
              THEN conjunct2, rule_format, of "1773924547411831 / 2 ^ 45"]
      p1 f1 n1 c1 d1
    by simp
  have r1: "analyze_catch example_env (Error ?m1) = Response 429 (RateLimitedBody quota_message (Some 51))"
    using C5_rate_limited [of "Error ?m1" example_env ?m1, THEN conjunct1, rule_format, OF q1] e1 by simp
  have ln2: "list_all (\<lambda>k. retryIn_here (drop k ?m2) = None) [0..<Suc (length ?m2)]"
    by code_simp
  have n2: "\<forall>k\<le>length ?m2. \<forall>w f. \<not> retry_in_phrase (drop k ?m2) w f"
    using no_phrase_upto [OF ln2] by (simp only: less_Suc_eq_le)
  have ld2: "list_all (\<lambda>k. retryDelay_here (drop k ?m2) = None) [0..<Suc (length ?m2)]"
    by code_simp
  have d2: "\<forall>k\<le>length ?m2. \<forall>d. \<not> retry_delay_field (drop k ?m2) d"
    using no_field_upto [OF ld2] by (simp only: less_Suc_eq_le)
  have e2: "extractRetryAfterSeconds example_env ?m2 = None"
    using C5_rate_limited [of "Error ?m2" example_env ?m2, THEN conjunct2, THEN conjunct2, THEN conjunct2,
              THEN conjunct2, THEN conjunct2, rule_format] n2 d2 by simp
  have r2: "analyze_catch example_env (Error ?m2) = Response 429 (RateLimitedBody quota_message None)"
    using C5_rate_limited [of "Error ?m2" example_env ?m2, THEN conjunct1, rule_format, OF q2] e2 by simp
  have p3: \<open>retry_delay_field ''retryDelay":"50s"'' ''50''\<close>
    unfolding retry_delay_field_def
    by (intro exI [of _ "''retryDelay''"] exI [of _ "[]"] exI [of _ \<open>''"''\<close>] exI [of _ "[]"])
       (simp add: lower_simps is_digit_def)
  have ln3: "list_all (\<lambda>k. retryIn_here (drop k ?m3) = None) [0..<Suc (length ?m3)]"
    by code_simp
  have n3: "\<forall>k\<le>length ?m3. \<forall>w f. \<not> retry_in_phrase (drop k ?m3) w f"
    using no_phrase_upto [OF ln3] by (simp only: less_Suc_eq_le)
  have f3: \<open>\<forall>k<length ''429 "''. \<forall>d. \<not> retry_delay_field (drop k ?m3) d\<close>
    by (rule no_field_upto) code_simp
  have v3: "number_of_digits ''50'' = 50"
    by (simp add: number_of_digits_def digit_value_def)
  have x3: "Number example_env ''50'' = Finite (of_nat (number_of_digits ''50''))"
    unfolding v3 by (simp add: example_env_def example_Number_def)
  have e3: "extractRetryAfterSeconds example_env ?m3 = Some (Finite 50)"
    using C5_rate_limited [of "Error ?m3" example_env ?m3, THEN conjunct2, THEN conjunct2, THEN conjunct2,
              THEN conjunct2, THEN conjunct1, rule_format,
              of \<open>''429 "''\<close> \<open>''retryDelay":"50s"''\<close> "''50''", THEN conjunct2, rule_format]
      p3 n3 f3 x3
    by (simp add: v3)
  have r3: "analyze_catch example_env (Error ?m3) = Response 429 (RateLimitedBody quota_message (Some 50))"
    using C5_rate_limited [of "Error ?m3" example_env ?m3, THEN conjunct1, rule_format, OF q3] e3 by simp
  have r4: "analyze_catch example_env (Error ?m4) = Response 500 (ErrorBody ?m4)"
    using C5_rate_limited [of "Error ?m4" example_env ?m4, THEN conjunct2, THEN conjunct1, rule_format, OF q4] by simp
  have ln5: "list_all (\<lambda>k. retryIn_here (drop k ?m5) = None) [0..<Suc (length ?m5)]"
    by code_simp
  have n5: "\<forall>k\<le>length ?m5. \<forall>w f. \<not> retry_in_phrase (drop k ?m5) w f"
    using no_phrase_upto [OF ln5] by (simp only: less_Suc_eq_le)
  have ld5: "list_all (\<lambda>k. retryDelay_here (drop k ?m5) = None) [0..<Suc (length ?m5)]"
    by code_simp
  have d5: "\<forall>k\<le>length ?m5. \<forall>d. \<not> retry_delay_field (drop k ?m5) d"
    using no_field_upto [OF ld5] by (simp only: less_Suc_eq_le)
  have e5: "extractRetryAfterSeconds example_env ?m5 = None"
    using C5_rate_limited [of "Error ?m5" example_env ?m5, THEN conjunct2, THEN conjunct2, THEN conjunct2,
              THEN conjunct2, THEN conjunct2, rule_format] n5 d5 by simp
  have c5: "analyze_catch example_env (Error ?m5) = Response 429 (RateLimitedBody quota_message None)"
    using C5_rate_limited [of "Error ?m5" example_env ?m5, THEN conjunct1, rule_format, OF q5] e5 by simp
  have sel: "select_documents default_config example_env report_state (Some (JArr [JStr ''r1'']))
     = Inr (report_state, [report_doc])"
    using report_documents by (rule select_one) (simp add: default_config_def)
  have mm: "\<not> (multimodal default_config [report_doc]
               \<and> documentParts default_config example_env [report_doc] = [])"
    by code_simp
  have r5: "analyze default_config example_env report_state (Some (JArr [JStr ''r1'']))
     = (report_state, Response 429 (RateLimitedBody quota_message None),
        [\<lparr> req_prompt =
           \<lparr> p_transcriptText = ''Document: report.txt\<newline>Revenue grew 12% year over year and margins expanded by 150 bps.'',
             p_lowSignal = True, p_hasAttachedDocs = False, p_retry = False \<rparr>,
         req_documentParts = [] \<rparr>])"
    using C5_rate_limited [of "Error ?m5" example_env ?m5, THEN conjunct2, THEN conjunct2, THEN conjunct1,
              rule_format, OF sel mm report_run]
    unfolding c5 .
  from r1 r2 r3 r4 r5 show ?thesis by blast
qed

end
